theory Spec2Isabelle
  imports Main
begin

section \<open>Data model\<close>

text \<open>
  The moderation core of the marketplace backend: the report collection with its SLA
  fields (models/report.js), the block collection (models/block.js), the moderation
  fields of users (models/users.js), the admin moderation actions
  (routes/admin-userAuthRoutes/admin-reportRoutes.js), report submission
  (routes/reportRoutes/reportRoutes.js), the block routes, the image listing
  (routes/imageRoutes/imageRoutes.js), the SLA monitor (services/slaMonitor.js) and the
  content filter (services/contentFilter.js).

  Modelling conventions.
  \<^item> A MongoDB collection is the list of its documents, in insertion order.
  \<^item> An ObjectId is a natural number. A route parameter that fails
    \<^verbatim>\<open>mongoose.isValidObjectId\<close> is \<open>None\<close>, a well-formed one is \<open>Some i\<close>.
  \<^item> A \<^verbatim>\<open>Date\<close> is its \<^verbatim>\<open>getTime()\<close>: an integer number of milliseconds.
  \<^item> The clock is a parameter. The reads that a request handler or a monitor cycle
    makes in its own statements (\<^verbatim>\<open>Date.now()\<close>, \<^verbatim>\<open>new Date()\<close>) and the
    \<^verbatim>\<open>updatedAt\<close> stamps of its updates are one value \<open>now\<close>. \<^verbatim>\<open>Report.create\<close>
    reads the clock twice more, when it constructs the document and when it saves it;
    these two readings are parameters of their own.
  \<^item> A \<^verbatim>\<open>Date\<close> holds a time value of at most 8.64e15 milliseconds in absolute
    value; beyond that \<^verbatim>\<open>new Date(t)\<close> is an Invalid Date.
  \<^item> An HTTP response is its status code with the \<^verbatim>\<open>error\<close> or \<^verbatim>\<open>message\<close> string.
  \<^item> A database call does not fail in the model; a JavaScript \<^verbatim>\<open>TypeError\<close> caught by
    a handler's \<^verbatim>\<open>catch\<close> is the response 500.
  \<^item> The records keep the fields that the modelled routes read or write. The image
    schema (models/images.js) is not among the sources at hand; an image has the fields
    that the routes use.
\<close>

type_synonym objectId = nat
type_synonym date = int

datatype report_status = PENDING | UNDER_REVIEW | RESOLVED | DISMISSED

datatype target_type = IMAGE | USER

datatype resolution_action =
  NO_ACTION | WARNING_ISSUED | CONTENT_REMOVED | USER_SUSPENDED | USER_BANNED

datatype moderation_status = Active | Warned | Suspended | Banned

datatype notification_type =
  REPORT_RESOLVED | MODERATION_WARNING | MODERATION_SUSPENSION | MODERATION_BAN
  | NOTIFY_CONTENT_REMOVED

record content_snapshot =
  snap_imageLink :: "string option"
  snap_imageName :: "string option"
  snap_imageDescription :: "string option"
  snap_userName :: "string option"
  snap_userEmail :: "string option"

record report =
  report_id :: objectId
  reporterUserId :: objectId
  targetType :: target_type
  targetImageId :: "objectId option"
  targetUserId :: "objectId option"
  reason :: string
  description :: string
  status :: report_status
  slaDeadline :: date
  slaBreached :: bool
  resolvedAt :: "date option"
  resolvedByAdminId :: "objectId option"
  resolutionAction :: "resolution_action option"
  resolutionNotes :: "string option"
  contentSnapshot :: content_snapshot
  createdAt :: date
  updatedAt :: date

record user =
  user_id :: objectId
  user_name :: "string option"
  user_email :: "string option"
  moderationStatus :: moderation_status
  warningCount :: int
  suspendedUntil :: "date option"
  banReason :: "string option"
  lastModerationAction :: "date option"
  user_updatedAt :: date

record image =
  image_id :: objectId
  image_userId :: objectId
  image_name :: "string option"
  imageLink :: "string option"
  image_description :: "string option"
  category :: string

record notification =
  recipientUserId :: objectId
  notification_type :: notification_type
  title :: string
  message :: string
  notification_reportId :: "objectId option"
  data_artName :: "string option"
  data_imageLink :: "string option"

record block =
  blockerUserId :: objectId
  blockedUserId :: objectId
  block_reason :: "string option"

record db =
  reports :: "report list"
  users :: "user list"
  images :: "image list"
  notifications :: "notification list"
  blocks :: "block list"

datatype response = Error nat string | Success nat string

section \<open>Collection primitives\<close>

text \<open>\<^verbatim>\<open>Model.findById(id)\<close>: the first document with that \<^verbatim>\<open>_id\<close>, or null.\<close>

definition findById :: "('a \<Rightarrow> objectId) \<Rightarrow> objectId \<Rightarrow> 'a list \<Rightarrow> 'a option" where
  "findById idf i xs = find (\<lambda>x. idf x = i) xs"

text \<open>\<^verbatim>\<open>findOneAndUpdate\<close> changes the first matching document only.\<close>

fun update_first :: "('a \<Rightarrow> bool) \<Rightarrow> ('a \<Rightarrow> 'a) \<Rightarrow> 'a list \<Rightarrow> 'a list" where
  "update_first P f [] = []"
| "update_first P f (x # xs) = (if P x then f x # xs else x # update_first P f xs)"

text \<open>
  \<^verbatim>\<open>Model.findByIdAndUpdate(id, update, { new: true })\<close>: the updated document (null
  when no document has the id; nothing is inserted) and the collection after the update.
\<close>

definition findByIdAndUpdate ::
  "('a \<Rightarrow> objectId) \<Rightarrow> objectId \<Rightarrow> ('a \<Rightarrow> 'a) \<Rightarrow> 'a list \<Rightarrow> 'a option \<times> 'a list" where
  "findByIdAndUpdate idf i f xs =
     (map_option f (findById idf i xs), update_first (\<lambda>x. idf x = i) f xs)"

text \<open>\<^verbatim>\<open>findOneAndDelete\<close> removes the first matching document only.\<close>

fun delete_first :: "('a \<Rightarrow> bool) \<Rightarrow> 'a list \<Rightarrow> 'a list" where
  "delete_first P [] = []"
| "delete_first P (x # xs) = (if P x then xs else x # delete_first P xs)"

text \<open>\<^verbatim>\<open>Model.updateMany(filter, update)\<close> changes every matching document.\<close>

definition updateMany :: "('a \<Rightarrow> bool) \<Rightarrow> ('a \<Rightarrow> 'a) \<Rightarrow> 'a list \<Rightarrow> 'a list" where
  "updateMany P f xs = map (\<lambda>x. if P x then f x else x) xs"

section \<open>Report status: PATCH /admin/reports/:id/status\<close>

text \<open>\<^verbatim>\<open>Object.values(REPORT_STATUS)\<close> and the status a request string names.\<close>

definition REPORT_STATUS_values :: "string list" where
  "REPORT_STATUS_values = [''pending'', ''under_review'', ''resolved'', ''dismissed'']"

definition status_of_string :: "string \<Rightarrow> report_status option" where
  "status_of_string s =
     (if s = ''pending'' then Some PENDING
      else if s = ''under_review'' then Some UNDER_REVIEW
      else if s = ''resolved'' then Some RESOLVED
      else if s = ''dismissed'' then Some DISMISSED
      else None)"

text \<open>
  The handler of \<^verbatim>\<open>router.patch("/:id/status")\<close>. The body's \<^verbatim>\<open>status\<close> is \<open>None\<close>
  when absent. The update sets \<^verbatim>\<open>status\<close>, and for resolved or dismissed also
  \<^verbatim>\<open>resolvedAt\<close> and \<^verbatim>\<open>resolvedByAdminId\<close>; it does not read the current status.
\<close>

definition patch_status ::
  "date \<Rightarrow> objectId \<Rightarrow> objectId option \<Rightarrow> string option \<Rightarrow> db \<Rightarrow> response \<times> db" where
  "patch_status now admin idp statusp s =
     (case idp of
        None \<Rightarrow> (Error 400 ''Invalid report ID'', s)
      | Some i \<Rightarrow>
          (case statusp of
             None \<Rightarrow> (Error 400 ''Invalid status'', s)
           | Some str \<Rightarrow>
               (if str = [] \<or> str \<notin> set REPORT_STATUS_values
                then (Error 400 ''Invalid status'', s)
                else
                  (case status_of_string str of
                     None \<Rightarrow> (Error 400 ''Invalid status'', s)
                   | Some st \<Rightarrow>
                       (let updateData =
                              (if st = RESOLVED \<or> st = DISMISSED
                               then (\<lambda>r. r\<lparr>status := st, resolvedAt := Some now,
                                            resolvedByAdminId := Some admin,
                                            updatedAt := now\<rparr>)
                               else (\<lambda>r. r\<lparr>status := st, updatedAt := now\<rparr>));
                            (found, rs) = findByIdAndUpdate report_id i updateData (reports s)
                        in (case found of
                              None \<Rightarrow> (Error 404 ''Report not found'', s\<lparr>reports := rs\<rparr>)
                            | Some r \<Rightarrow>
                                (Success 200 (''Report status updated to '' @ str),
                                 s\<lparr>reports := rs\<rparr>)))))))"

section \<open>Moderation actions: POST /admin/reports/:id/action/...\<close>

text \<open>
  The time values that \<^verbatim>\<open>new Date(t)\<close> accepts, and JavaScript's \<^verbatim>\<open>x || d\<close> on
  an optional string of a request body: an absent or empty string is falsy and gives
  the default.
\<close>

definition valid_date :: "int \<Rightarrow> bool" where
  "valid_date t = (- 8640000000000000 \<le> t \<and> t \<le> 8640000000000000)"

definition js_or :: "string option \<Rightarrow> string \<Rightarrow> string" where
  "js_or x d = (case x of None \<Rightarrow> d | Some v \<Rightarrow> if v = [] then d else v)"

definition falsy :: "string option \<Rightarrow> bool" where
  "falsy x = (case x of None \<Rightarrow> True | Some v \<Rightarrow> v = [])"

text \<open>The notification every action sends to the reporter.\<close>

definition reporter_notification :: "report \<Rightarrow> string \<Rightarrow> string \<Rightarrow> notification" where
  "reporter_notification rep ttl msg =
     \<lparr>recipientUserId = reporterUserId rep, notification_type = REPORT_RESOLVED,
      title = ttl, message = msg, notification_reportId = Some (report_id rep),
      data_artName = None, data_imageLink = None\<rparr>"

definition target_notification ::
  "objectId \<Rightarrow> report \<Rightarrow> notification_type \<Rightarrow> string \<Rightarrow> string \<Rightarrow> notification" where
  "target_notification u rep ty ttl msg =
     \<lparr>recipientUserId = u, notification_type = ty, title = ttl, message = msg,
      notification_reportId = Some (report_id rep),
      data_artName = None, data_imageLink = None\<rparr>"

text \<open>
  \<^verbatim>\<open>router.post("/:id/action/warn-user")\<close>. The user update is issued first; the
  report is written and the notifications are created only when it found the user.
\<close>

definition warn_user ::
  "date \<Rightarrow> objectId \<Rightarrow> objectId option \<Rightarrow> string option \<Rightarrow> db \<Rightarrow> response \<times> db" where
  "warn_user now admin idp msg s =
     (case idp of
        None \<Rightarrow> (Error 400 ''Invalid report ID'', s)
      | Some i \<Rightarrow>
          (case findById report_id i (reports s) of
             None \<Rightarrow> (Error 404 ''Report not found'', s)
           | Some rep \<Rightarrow>
               (case targetUserId rep of
                  None \<Rightarrow> (Error 400 ''No target user to warn'', s)
                | Some u \<Rightarrow>
                    (let (found, us) =
                           findByIdAndUpdate user_id u
                             (\<lambda>x. x\<lparr>warningCount := warningCount x + 1,
                                    moderationStatus := Warned,
                                    lastModerationAction := Some now,
                                    user_updatedAt := now\<rparr>) (users s);
                         s1 = s\<lparr>users := us\<rparr>
                     in (case found of
                           None \<Rightarrow> (Error 404 ''Target user not found'', s1)
                         | Some usr \<Rightarrow>
                             (let rs = snd (findByIdAndUpdate report_id i
                                    (\<lambda>r. r\<lparr>status := RESOLVED, resolvedAt := Some now,
                                           resolvedByAdminId := Some admin,
                                           resolutionAction := Some WARNING_ISSUED,
                                           resolutionNotes := Some (js_or msg
                                             ''Warning issued for community guideline violation''),
                                           updatedAt := now\<rparr>) (reports s1));
                                  n1 = target_notification u rep MODERATION_WARNING
                                         ''Account Warning''
                                         (js_or msg ''You have received a warning for violating our community guidelines. Continued violations may result in account suspension.'');
                                  n2 = reporter_notification rep ''Report Resolved''
                                         ''Thank you for your report. We have reviewed it and taken appropriate action.''
                              in (Success 200 ''Warning issued successfully'',
                                  s1\<lparr>reports := rs,
                                     notifications := notifications s1 @ [n1, n2]\<rparr>)))))))"

text \<open>
  \<^verbatim>\<open>router.post("/:id/action/suspend-user")\<close>. \<open>days\<close> is the body's
  \<^verbatim>\<open>durationDays\<close>, an integer number when present and 7 when absent; the handler
  does not validate it. \<open>str\<close> renders a number inside a template string and
  \<open>localeDate\<close> is \<^verbatim>\<open>toLocaleDateString()\<close>. When
  \<^verbatim>\<open>Date.now() + durationDays * 24 * 60 * 60 * 1000\<close> is outside the range of a
  Date, \<^verbatim>\<open>suspendedUntil\<close> is an Invalid Date, the user update cannot cast it and
  throws before anything is written, and the handler's catch answers 500.
\<close>

definition suspend_user ::
  "(int \<Rightarrow> string) \<Rightarrow> (date \<Rightarrow> string) \<Rightarrow> date \<Rightarrow> objectId \<Rightarrow> objectId option \<Rightarrow>
   int option \<Rightarrow> string option \<Rightarrow> db \<Rightarrow> response \<times> db" where
  "suspend_user str localeDate now admin idp days msg s =
     (let durationDays = (case days of None \<Rightarrow> 7 | Some d \<Rightarrow> d) in
      case idp of
        None \<Rightarrow> (Error 400 ''Invalid report ID'', s)
      | Some i \<Rightarrow>
          (case findById report_id i (reports s) of
             None \<Rightarrow> (Error 404 ''Report not found'', s)
           | Some rep \<Rightarrow>
               (case targetUserId rep of
                  None \<Rightarrow> (Error 400 ''No target user to suspend'', s)
                | Some u \<Rightarrow>
                    (let until = now + durationDays * 24 * 60 * 60 * 1000 in
                     if \<not> valid_date until then (Error 500 ''Internal Server Error'', s)
                     else
                     (let (found, us) =
                           findByIdAndUpdate user_id u
                             (\<lambda>x. x\<lparr>moderationStatus := Suspended,
                                    suspendedUntil := Some until,
                                    lastModerationAction := Some now,
                                    user_updatedAt := now\<rparr>) (users s);
                         s1 = s\<lparr>users := us\<rparr>
                     in (case found of
                           None \<Rightarrow> (Error 404 ''Target user not found'', s1)
                         | Some usr \<Rightarrow>
                             (let rs = snd (findByIdAndUpdate report_id i
                                    (\<lambda>r. r\<lparr>status := RESOLVED, resolvedAt := Some now,
                                           resolvedByAdminId := Some admin,
                                           resolutionAction := Some USER_SUSPENDED,
                                           resolutionNotes := Some (js_or msg
                                             (''User suspended for '' @ str durationDays @
                                              '' days due to community guideline violations'')),
                                           updatedAt := now\<rparr>) (reports s1));
                                  n1 = target_notification u rep MODERATION_SUSPENSION
                                         ''Account Suspended''
                                         (js_or msg
                                            (''Your account has been suspended for '' @
                                             str durationDays @
                                             '' days due to community guideline violations. You will be able to access your account again after '' @
                                             localeDate until @ ''.''));
                                  n2 = reporter_notification rep ''Report Resolved''
                                         ''Thank you for your report. We have reviewed it and taken appropriate action.''
                              in (Success 200
                                    (''User suspended for '' @ str durationDays @ '' days''),
                                  s1\<lparr>reports := rs,
                                     notifications := notifications s1 @ [n1, n2]\<rparr>))))))))"

text \<open>
  \<^verbatim>\<open>router.post("/:id/action/ban-user")\<close>. The ban reason is checked before the
  report is looked up.
\<close>

definition ban_user ::
  "date \<Rightarrow> objectId \<Rightarrow> objectId option \<Rightarrow> string option \<Rightarrow> db \<Rightarrow> response \<times> db" where
  "ban_user now admin idp why s =
     (case idp of
        None \<Rightarrow> (Error 400 ''Invalid report ID'', s)
      | Some i \<Rightarrow>
          (if falsy why then (Error 400 ''Ban reason is required'', s)
           else
             (case findById report_id i (reports s) of
                None \<Rightarrow> (Error 404 ''Report not found'', s)
              | Some rep \<Rightarrow>
                  (case targetUserId rep of
                     None \<Rightarrow> (Error 400 ''No target user to ban'', s)
                   | Some u \<Rightarrow>
                       (let (found, us) =
                              findByIdAndUpdate user_id u
                                (\<lambda>x. x\<lparr>moderationStatus := Banned,
                                       banReason := why,
                                       lastModerationAction := Some now,
                                       user_updatedAt := now\<rparr>) (users s);
                            s1 = s\<lparr>users := us\<rparr>
                        in (case found of
                              None \<Rightarrow> (Error 404 ''Target user not found'', s1)
                            | Some usr \<Rightarrow>
                                (let rs = snd (findByIdAndUpdate report_id i
                                       (\<lambda>r. r\<lparr>status := RESOLVED, resolvedAt := Some now,
                                              resolvedByAdminId := Some admin,
                                              resolutionAction := Some USER_BANNED,
                                              resolutionNotes := why,
                                              updatedAt := now\<rparr>) (reports s1));
                                     n1 = target_notification u rep MODERATION_BAN
                                            ''Account Terminated''
                                            (''Your account has been permanently banned. Reason: '' @
                                             the why);
                                     n2 = reporter_notification rep ''Report Resolved''
                                            ''Thank you for your report. We have reviewed it and taken appropriate action.''
                                 in (Success 200 ''User has been permanently banned'',
                                     s1\<lparr>reports := rs,
                                        notifications := notifications s1 @ [n1, n2]\<rparr>))))))))"

text \<open>
  \<^verbatim>\<open>router.post("/:id/action/remove-content")\<close>. When the image is gone the report
  is resolved and the handler answers "Content was already removed". Otherwise the
  stored asset is deleted at the image host (a failure there is caught and logged; the
  host is outside the state), the image document is deleted, the report is resolved,
  the owner is notified when \<^verbatim>\<open>notifyUser\<close> (default true) holds, and the reporter
  is notified.
\<close>

definition remove_content ::
  "date \<Rightarrow> objectId \<Rightarrow> objectId option \<Rightarrow> bool option \<Rightarrow> string option \<Rightarrow> db \<Rightarrow>
   response \<times> db" where
  "remove_content now admin idp notify why s =
     (let notifyUser = (case notify of None \<Rightarrow> True | Some b \<Rightarrow> b) in
      case idp of
        None \<Rightarrow> (Error 400 ''Invalid report ID'', s)
      | Some i \<Rightarrow>
          (case findById report_id i (reports s) of
             None \<Rightarrow> (Error 404 ''Report not found'', s)
           | Some rep \<Rightarrow>
               (case targetImageId rep of
                  None \<Rightarrow> (Error 400 ''No image to remove for this report'', s)
                | Some im \<Rightarrow>
                    (case findById image_id im (images s) of
                       None \<Rightarrow>
                         (Success 200 ''Content was already removed'',
                          s\<lparr>reports := snd (findByIdAndUpdate report_id i
                                (\<lambda>r. r\<lparr>status := RESOLVED, resolvedAt := Some now,
                                       resolvedByAdminId := Some admin,
                                       resolutionAction := Some CONTENT_REMOVED,
                                       resolutionNotes := Some ''Content was already removed'',
                                       updatedAt := now\<rparr>) (reports s))\<rparr>)
                     | Some img \<Rightarrow>
                         (let s1 = s\<lparr>images := delete_first (\<lambda>x. image_id x = im) (images s)\<rparr>;
                              rs = snd (findByIdAndUpdate report_id i
                                (\<lambda>r. r\<lparr>status := RESOLVED, resolvedAt := Some now,
                                       resolvedByAdminId := Some admin,
                                       resolutionAction := Some CONTENT_REMOVED,
                                       resolutionNotes := Some (js_or why
                                         ''Content removed for violating community guidelines''),
                                       updatedAt := now\<rparr>) (reports s1));
                              owner_note =
                                (case targetUserId rep of
                                   None \<Rightarrow> []
                                 | Some u \<Rightarrow>
                                     if notifyUser then
                                       [(target_notification u rep NOTIFY_CONTENT_REMOVED
                                           ''Content Removed''
                                           (js_or why
                                              (''Your artwork '' @ [CHR 0x22] @
                                               (case image_name img of None \<Rightarrow> ''undefined''
                                                | Some n \<Rightarrow> n) @
                                               [CHR 0x22] @
                                               '' has been removed for violating our community guidelines.'')))
                                          \<lparr>data_artName := image_name img,
                                           data_imageLink := snap_imageLink (contentSnapshot rep)\<rparr>]
                                     else []);
                              n2 = reporter_notification rep ''Report Resolved''
                                     ''Thank you for your report. The content has been removed.''
                          in (Success 200 ''Content removed successfully'',
                              s1\<lparr>reports := rs,
                                 notifications := notifications s1 @ owner_note @ [n2]\<rparr>))))))"

text \<open>\<^verbatim>\<open>router.post("/:id/action/dismiss")\<close>.\<close>

definition dismiss ::
  "date \<Rightarrow> objectId \<Rightarrow> objectId option \<Rightarrow> string option \<Rightarrow> db \<Rightarrow> response \<times> db" where
  "dismiss now admin idp why s =
     (case idp of
        None \<Rightarrow> (Error 400 ''Invalid report ID'', s)
      | Some i \<Rightarrow>
          (let (found, rs) = findByIdAndUpdate report_id i
                 (\<lambda>r. r\<lparr>status := DISMISSED, resolvedAt := Some now,
                        resolvedByAdminId := Some admin,
                        resolutionAction := Some NO_ACTION,
                        resolutionNotes := Some (js_or why
                          ''Report dismissed - no violation found''),
                        updatedAt := now\<rparr>) (reports s);
               s1 = s\<lparr>reports := rs\<rparr>
           in (case found of
                 None \<Rightarrow> (Error 404 ''Report not found'', s1)
               | Some rep \<Rightarrow>
                   (Success 200 ''Report dismissed'',
                    s1\<lparr>notifications := notifications s1 @
                         [reporter_notification rep ''Report Reviewed''
                            ''We have reviewed your report. After investigation, we determined that no violation occurred. Thank you for helping keep our community safe.'']\<rparr>))))"

section \<open>Report submission: POST /reports/image/:imageId and /reports/user/:userId\<close>

text \<open>\<^verbatim>\<open>Object.values(REPORT_REASON)\<close>.\<close>

definition REPORT_REASON_values :: "string list" where
  "REPORT_REASON_values =
     [''inappropriate_content'', ''nudity_sexual'', ''violence_graphic'', ''hate_speech'',
      ''copyright_violation'', ''trademark_violation'', ''harassment'', ''spam'',
      ''scam_fraud'', ''impersonation'', ''other'']"

text \<open>
  The schema default of \<^verbatim>\<open>slaDeadline\<close>,
  \<^verbatim>\<open>() => new Date(Date.now() + 24 * 60 * 60 * 1000)\<close>, applied when the path is not
  given, and the pre-save hook, which fills the deadline of a new document that still
  has none. Each takes the clock reading of the moment it runs.
\<close>

definition slaDeadline_default :: "date \<Rightarrow> date option \<Rightarrow> date option" where
  "slaDeadline_default now given =
     (case given of None \<Rightarrow> Some (now + 24 * 60 * 60 * 1000) | Some d \<Rightarrow> Some d)"

definition pre_save :: "date \<Rightarrow> date option \<Rightarrow> date" where
  "pre_save now d = (case d of None \<Rightarrow> now + 24 * 60 * 60 * 1000 | Some v \<Rightarrow> v)"

text \<open>
  \<^verbatim>\<open>Report.create(doc)\<close> for the paths the two routes pass. The document is
  constructed first, at clock reading \<open>built\<close>: the schema supplies \<^verbatim>\<open>status\<close>
  pending, the deadline default, \<^verbatim>\<open>slaBreached\<close> false and \<^verbatim>\<open>resolvedAt\<close> null.
  It is saved afterwards, at clock reading \<open>saved\<close>: the pre-save hook runs and the
  \<^verbatim>\<open>timestamps: true\<close> option stamps \<^verbatim>\<open>createdAt\<close> and \<^verbatim>\<open>updatedAt\<close>. A
  description longer than 1000 characters fails validation and nothing is stored.
\<close>

definition Report_create ::
  "date \<Rightarrow> date \<Rightarrow> objectId \<Rightarrow> objectId \<Rightarrow> target_type \<Rightarrow> objectId option \<Rightarrow>
   objectId option \<Rightarrow> string \<Rightarrow> string \<Rightarrow> content_snapshot \<Rightarrow> report list \<Rightarrow>
   (report \<times> report list) option" where
  "Report_create built saved newId reporter ty timg tuser why descr snap rs =
     (if length descr > 1000 then None
      else
        (let doc = \<lparr>report_id = newId, reporterUserId = reporter, targetType = ty,
                    targetImageId = timg, targetUserId = tuser, reason = why,
                    description = descr, status = PENDING,
                    slaDeadline = pre_save saved (slaDeadline_default built None),
                    slaBreached = False, resolvedAt = None, resolvedByAdminId = None,
                    resolutionAction = None, resolutionNotes = None,
                    contentSnapshot = snap, createdAt = saved, updatedAt = saved\<rparr>
         in Some (doc, rs @ [doc])))"

definition submitted :: string where
  "submitted = ''Report submitted successfully. Our team will review it within 24 hours.''"

definition description_too_long :: string where
  "description_too_long =
     ''Report validation failed: description: Description should be less than 1000 characters''"

text \<open>
  \<^verbatim>\<open>router.post("/image/:imageId")\<close>. \<open>now\<close> is the handler's own
  \<^verbatim>\<open>Date.now()\<close> in the duplicate query, \<open>built\<close> and \<open>saved\<close> are the two clock
  readings of \<^verbatim>\<open>Report.create\<close>, and \<open>newId\<close> is the ObjectId the new document
  receives. \<^verbatim>\<open>populate("userId")\<close> leaves null when the owner's account is gone, and
  \<^verbatim>\<open>image.userId._id\<close> then throws into the handler's catch (500). The duplicate
  query matches on reporter, image and creation time; it has no condition on status.
\<close>

definition report_image ::
  "date \<Rightarrow> date \<Rightarrow> date \<Rightarrow> objectId \<Rightarrow> objectId \<Rightarrow> objectId option \<Rightarrow> string option \<Rightarrow>
   string option \<Rightarrow> db \<Rightarrow> response \<times> db" where
  "report_image now built saved newId reporterId imageIdp reasonp descp s =
     (case imageIdp of
        None \<Rightarrow> (Error 400 ''Invalid image ID'', s)
      | Some imageId \<Rightarrow>
          (if falsy reasonp \<or> js_or reasonp [] \<notin> set REPORT_REASON_values
           then (Error 400 ''Invalid report reason'', s)
           else
             (case findById image_id imageId (images s) of
                None \<Rightarrow> (Error 404 ''Image not found'', s)
              | Some img \<Rightarrow>
                  (case findById user_id (image_userId img) (users s) of
                     None \<Rightarrow> (Error 500 ''Internal Server Error'', s)
                   | Some owner \<Rightarrow>
                       (if user_id owner = reporterId
                        then (Error 400 ''You cannot report your own content'', s)
                        else
                          (case find (\<lambda>r. reporterUserId r = reporterId \<and>
                                            targetImageId r = Some imageId \<and>
                                            createdAt r \<ge> now - 24 * 60 * 60 * 1000)
                                  (reports s) of
                             Some existing \<Rightarrow>
                               (Error 409 ''You have already reported this content recently'', s)
                           | None \<Rightarrow>
                               (case Report_create built saved newId reporterId IMAGE (Some imageId)
                                       (Some (user_id owner)) (js_or reasonp [])
                                       (js_or descp [])
                                       \<lparr>snap_imageLink = imageLink img,
                                        snap_imageName = image_name img,
                                        snap_imageDescription = image_description img,
                                        snap_userName = user_name owner,
                                        snap_userEmail = user_email owner\<rparr>
                                       (reports s) of
                                  None \<Rightarrow> (Error 400 description_too_long, s)
                                | Some (doc, rs) \<Rightarrow>
                                    (Success 201 submitted, s\<lparr>reports := rs\<rparr>))))))))"

text \<open>
  \<^verbatim>\<open>router.post("/user/:userId")\<close>. The duplicate query matches on reporter, target
  user, target type user and creation time.
\<close>

definition report_user ::
  "date \<Rightarrow> date \<Rightarrow> date \<Rightarrow> objectId \<Rightarrow> objectId \<Rightarrow> objectId option \<Rightarrow> string option \<Rightarrow>
   string option \<Rightarrow> db \<Rightarrow> response \<times> db" where
  "report_user now built saved newId reporterId userIdp reasonp descp s =
     (case userIdp of
        None \<Rightarrow> (Error 400 ''Invalid user ID'', s)
      | Some userId \<Rightarrow>
          (if falsy reasonp \<or> js_or reasonp [] \<notin> set REPORT_REASON_values
           then (Error 400 ''Invalid report reason'', s)
           else
             (case findById user_id userId (users s) of
                None \<Rightarrow> (Error 404 ''User not found'', s)
              | Some targetUser \<Rightarrow>
                  (if user_id targetUser = reporterId
                   then (Error 400 ''You cannot report yourself'', s)
                   else
                     (case find (\<lambda>r. reporterUserId r = reporterId \<and>
                                       targetUserId r = Some userId \<and>
                                       targetType r = USER \<and>
                                       createdAt r \<ge> now - 24 * 60 * 60 * 1000)
                             (reports s) of
                        Some existing \<Rightarrow>
                          (Error 409 ''You have already reported this user recently'', s)
                      | None \<Rightarrow>
                          (case Report_create built saved newId reporterId USER None (Some userId)
                                  (js_or reasonp []) (js_or descp [])
                                  \<lparr>snap_imageLink = None, snap_imageName = None,
                                   snap_imageDescription = None,
                                   snap_userName = user_name targetUser,
                                   snap_userEmail = user_email targetUser\<rparr>
                                  (reports s) of
                             None \<Rightarrow> (Error 400 description_too_long, s)
                           | Some (doc, rs) \<Rightarrow>
                               (Success 201 submitted, s\<lparr>reports := rs\<rparr>)))))))"

section \<open>SLA tracking: markBreachedReports and the SLA monitor\<close>

text \<open>
  \<^verbatim>\<open>ReportSchema.statics.markBreachedReports\<close>: one \<^verbatim>\<open>updateMany\<close> that sets
  \<^verbatim>\<open>slaBreached\<close> on every pending or under-review report whose deadline is before
  now and that is not marked yet.
\<close>

definition markBreachedReports :: "date \<Rightarrow> report list \<Rightarrow> report list" where
  "markBreachedReports now rs =
     updateMany
       (\<lambda>r. status r \<in> set [PENDING, UNDER_REVIEW] \<and> slaDeadline r < now \<and>
            slaBreached r = False)
       (\<lambda>r. r\<lparr>slaBreached := True, updatedAt := now\<rparr>) rs"

text \<open>
  The monitor keeps the module-level set \<^verbatim>\<open>alertedReports\<close> of keys
  \<^verbatim>\<open>urgent-<id>\<close> and \<^verbatim>\<open>warning-<id>\<close>. A key is modelled as the pair of its tier
  and its report id: the string form of an ObjectId is 24 hexadecimal digits, so
  \<^verbatim>\<open>key.split("-")[1]\<close> is the id. A JavaScript \<^verbatim>\<open>Set\<close> is the list of its
  elements in insertion order, without repetition.
\<close>

datatype tier = Urgent | Warning

type_synonym alert_key = "tier \<times> objectId"

definition set_add :: "'a \<Rightarrow> 'a list \<Rightarrow> 'a list" where
  "set_add k ks = (if k \<in> set ks then ks else ks @ [k])"

text \<open>
  One call of \<^verbatim>\<open>sendEmail\<close> to the admin address: the tier of the alert and the
  reports listed in it. The mail service is outside the model; \<open>send e\<close> tells whether
  the call for \<open>e\<close> returns (True) or throws (False).
\<close>

record alert_email =
  email_tier :: tier
  email_reports :: "report list"

record sla_cycle =
  atRiskReports :: "report list"
  urgentReports :: "report list"
  warningReports :: "report list"
  sendEmail_calls :: "alert_email list"
  delivered :: "alert_email list"
  alertedReports :: "alert_key list"
  reports_after :: "report list"
  alertsSent :: nat

text \<open>
  One tier of a cycle: the reports of the tier not alerted yet; when there are any, one
  \<^verbatim>\<open>sendEmail\<close> call, and the keys are added only after the call has returned.
  The result is the new reports, the calls made, the calls that returned and the set.
\<close>

definition alert_tier ::
  "(alert_email \<Rightarrow> bool) \<Rightarrow> tier \<Rightarrow> report list \<Rightarrow> alert_key list \<Rightarrow>
   report list \<times> alert_email list \<times> alert_email list \<times> alert_key list" where
  "alert_tier send t tierReports alerted =
     (let newReports = filter (\<lambda>r. (t, report_id r) \<notin> set alerted) tierReports;
          e = \<lparr>email_tier = t, email_reports = newReports\<rparr>
      in if length newReports > 0
         then (if send e
               then (newReports, [e], [e],
                     fold (\<lambda>r ks. set_add (t, report_id r) ks) newReports alerted)
               else (newReports, [e], [], alerted))
         else (newReports, [], [], alerted))"

text \<open>
  \<^verbatim>\<open>checkSLADeadlines\<close>: the at-risk query (sorted by deadline), the breach sweep,
  the two tiers, and the clean-up that deletes every key whose report is resolved or
  dismissed. The record keeps the intermediate lists next to what the function returns
  (\<^verbatim>\<open>atRisk\<close>, \<^verbatim>\<open>urgent\<close> and \<^verbatim>\<open>alertsSent\<close> are the lengths).
\<close>

definition checkSLADeadlines ::
  "(alert_email \<Rightarrow> bool) \<Rightarrow> date \<Rightarrow> report list \<Rightarrow> alert_key list \<Rightarrow> sla_cycle" where
  "checkSLADeadlines send now rs alerted =
     (let fourHoursFromNow = now + 4 * 60 * 60 * 1000;
          oneHourFromNow = now + 1 * 60 * 60 * 1000;
          atRisk = sort_key slaDeadline
                     (filter (\<lambda>r. status r \<in> set [PENDING, UNDER_REVIEW] \<and>
                                   slaDeadline r \<le> fourHoursFromNow \<and> slaDeadline r > now) rs);
          rs1 = markBreachedReports now rs;
          urgent = filter (\<lambda>r. slaDeadline r \<le> oneHourFromNow) atRisk;
          warning = filter (\<lambda>r. slaDeadline r > oneHourFromNow) atRisk;
          (newUrgent, calls1, ok1, alerted1) = alert_tier send Urgent urgent alerted;
          (newWarning, calls2, ok2, alerted2) = alert_tier send Warning warning alerted1;
          resolvedReportIds =
            map report_id (filter (\<lambda>r. status r \<in> set [RESOLVED, DISMISSED]) rs1)
      in \<lparr>atRiskReports = atRisk, urgentReports = urgent, warningReports = warning,
          sendEmail_calls = calls1 @ calls2, delivered = ok1 @ ok2,
          alertedReports = filter (\<lambda>key. snd key \<notin> set resolvedReportIds) alerted2,
          reports_after = rs1,
          alertsSent = length newUrgent + length newWarning\<rparr>)"

text \<open>
  A run of the monitor: cycle after cycle, each with its own clock reading, its own
  state of the report collection (anything may happen to the reports between two
  cycles) and its own mail outcome; only \<^verbatim>\<open>alertedReports\<close> is carried over.
\<close>

record cycle_input =
  cycle_send :: "alert_email \<Rightarrow> bool"
  cycle_now :: date
  cycle_reports :: "report list"

definition monitor_step :: "cycle_input \<Rightarrow> alert_key list \<Rightarrow> alert_key list" where
  "monitor_step x alerted =
     alertedReports (checkSLADeadlines (cycle_send x) (cycle_now x) (cycle_reports x) alerted)"

definition alerted_before :: "alert_key list \<Rightarrow> cycle_input list \<Rightarrow> nat \<Rightarrow> alert_key list" where
  "alerted_before alerted0 ins k = fold monitor_step (take k ins) alerted0"

definition cycle_at :: "alert_key list \<Rightarrow> cycle_input list \<Rightarrow> nat \<Rightarrow> sla_cycle" where
  "cycle_at alerted0 ins k =
     checkSLADeadlines (cycle_send (ins ! k)) (cycle_now (ins ! k)) (cycle_reports (ins ! k))
       (alerted_before alerted0 ins k)"

section \<open>Blocks and the image listing\<close>

text \<open>\<^verbatim>\<open>BlockSchema.statics.getBlockedUserIds\<close>: the users a user has blocked.\<close>

definition getBlockedUserIds :: "objectId \<Rightarrow> block list \<Rightarrow> objectId list" where
  "getBlockedUserIds blocker bs =
     map blockedUserId (filter (\<lambda>b. blockerUserId b = blocker) bs)"

text \<open>\<^verbatim>\<open>BlockSchema.statics.isBlocked\<close>.\<close>

definition isBlocked :: "objectId \<Rightarrow> objectId \<Rightarrow> block list \<Rightarrow> bool" where
  "isBlocked blocker blocked bs =
     (find (\<lambda>b. blockerUserId b = blocker \<and> blockedUserId b = blocked) bs \<noteq> None)"

text \<open>
  \<^verbatim>\<open>router.post("/:userId")\<close> of the block routes. A reason longer than 500 characters
  fails the schema validation of \<^verbatim>\<open>Block.create\<close>.
\<close>

definition block_user ::
  "objectId \<Rightarrow> objectId option \<Rightarrow> string option \<Rightarrow> db \<Rightarrow> response \<times> db" where
  "block_user blocker userIdp why s =
     (case userIdp of
        None \<Rightarrow> (Error 400 ''Invalid user ID'', s)
      | Some userId \<Rightarrow>
          (if blocker = userId then (Error 400 ''You cannot block yourself'', s)
           else
             (case findById user_id userId (users s) of
                None \<Rightarrow> (Error 404 ''User not found'', s)
              | Some targetUser \<Rightarrow>
                  (case find (\<lambda>b. blockerUserId b = blocker \<and> blockedUserId b = userId)
                          (blocks s) of
                     Some existingBlock \<Rightarrow>
                       (Error 409 ''You have already blocked this user'', s)
                   | None \<Rightarrow>
                       (if length (js_or why []) > 500
                        then (Error 400
                                ''Block validation failed: reason: Reason should be less than 500 characters'',
                              s)
                        else
                          (Success 201
                             (js_or (user_name targetUser) ''User'' @
                              '' has been blocked. Their content will no longer appear in your feed.''),
                           s\<lparr>blocks := blocks s @
                               [\<lparr>blockerUserId = blocker, blockedUserId = userId,
                                 block_reason = (if falsy why then None else why)\<rparr>]\<rparr>))))))"

text \<open>\<^verbatim>\<open>router.delete("/:userId")\<close>: \<^verbatim>\<open>findOneAndDelete\<close> on the ordered pair.\<close>

definition unblock_user :: "objectId \<Rightarrow> objectId option \<Rightarrow> db \<Rightarrow> response \<times> db" where
  "unblock_user blocker userIdp s =
     (case userIdp of
        None \<Rightarrow> (Error 400 ''Invalid user ID'', s)
      | Some userId \<Rightarrow>
          (case find (\<lambda>b. blockerUserId b = blocker \<and> blockedUserId b = userId) (blocks s) of
             None \<Rightarrow> (Error 404 ''Block not found. This user is not blocked.'', s)
           | Some result \<Rightarrow>
               (Success 200 ''User has been unblocked'',
                s\<lparr>blocks := delete_first
                     (\<lambda>b. blockerUserId b = blocker \<and> blockedUserId b = userId) (blocks s)\<rparr>)))"

text \<open>
  \<^verbatim>\<open>router.get("/all_images")\<close>. \<open>viewer\<close> is \<^verbatim>\<open>request.user\<close> (\<open>None\<close> for a
  guest). \<open>IMAGE_CATEGORY\<close> is the category list of models/images.js, which is not
  part of the sources at hand, so it is a parameter. \<open>page\<close> and \<open>limit\<close> are the
  query numbers (defaults 1 and 50); page 0 makes the skip negative, which the database
  rejects (500), and limit 0 is no limit. The answer keeps the page of images and
  \<^verbatim>\<open>totalImages\<close>.
\<close>

datatype listing = ListingError nat string | EmptyPage | Listing "image list" nat

definition listing_images :: "listing \<Rightarrow> image list" where
  "listing_images l = (case l of Listing imgs n \<Rightarrow> imgs | _ \<Rightarrow> [])"

text \<open>The documents that match the route's \<^verbatim>\<open>query\<close> object.\<close>

definition all_images_query :: "objectId option \<Rightarrow> string option \<Rightarrow> db \<Rightarrow> image list" where
  "all_images_query viewer categoryp s =
     (let blockedUserIds =
            (case viewer of None \<Rightarrow> [] | Some v \<Rightarrow> getBlockedUserIds v (blocks s))
      in filter (\<lambda>img. (falsy categoryp \<or> category img = js_or categoryp []) \<and>
                       (length blockedUserIds > 0 \<longrightarrow>
                          image_userId img \<notin> set blockedUserIds))
           (images s))"

definition all_images ::
  "string list \<Rightarrow> objectId option \<Rightarrow> string option \<Rightarrow> nat \<Rightarrow> nat \<Rightarrow> db \<Rightarrow> listing" where
  "all_images IMAGE_CATEGORY viewer categoryp page limit s =
     (if \<not> falsy categoryp \<and> js_or categoryp [] \<notin> set IMAGE_CATEGORY
      then ListingError 400 ''Please provide a valid category''
      else if page = 0 \<and> limit > 0 then ListingError 500 ''Internal Server Error''
      else
        (let matching = all_images_query viewer categoryp s;
             skip = (page - 1) * limit;
             imgs = (if limit = 0 then drop skip matching
                     else take limit (drop skip matching))
         in if length imgs = 0 \<and> page > 1 then EmptyPage
            else Listing imgs (length matching)))"

section \<open>Content filter (services/contentFilter.js)\<close>

text \<open>
  The text is a string of 8-bit characters. The patterns of the filter use literal
  characters, the classes \<^verbatim>\<open>\s\<close> and \<^verbatim>\<open>\d\<close>, \<^verbatim>\<open>+\<close> on a class, and \<^verbatim>\<open>?\<close> on a
  character or a group, all under the flag \<^verbatim>\<open>i\<close>. A pattern is a list of items.
\<close>

definition lower :: "char \<Rightarrow> char" where
  "lower c =
     (case map_of (zip ''ABCDEFGHIJKLMNOPQRSTUVWXYZ'' ''abcdefghijklmnopqrstuvwxyz'') c of
        None \<Rightarrow> c
      | Some l \<Rightarrow> l)"

datatype atom = Chr char | Space | Digit

datatype item = One atom | Many atom | Maybe "item list"

fun atom_ok :: "atom \<Rightarrow> char \<Rightarrow> bool" where
  "atom_ok (Chr c) x = (lower x = lower c)"
| "atom_ok Space x = ((of_char x :: nat) \<in> set [9, 10, 11, 12, 13, 32, 160])"
| "atom_ok Digit x = (48 \<le> (of_char x :: nat) \<and> (of_char x :: nat) \<le> 57)"

text \<open>The rests of the string after one or more characters of a class.\<close>

fun many :: "atom \<Rightarrow> string \<Rightarrow> string list" where
  "many a [] = []"
| "many a (x # xs) = (if atom_ok a x then xs # many a xs else [])"

text \<open>The rests of the string after a match of the item, or of the pattern, at its start.\<close>

fun item_match :: "item \<Rightarrow> string \<Rightarrow> string list"
  and items_match :: "item list \<Rightarrow> string \<Rightarrow> string list" where
  "item_match (One a) s = (case s of [] \<Rightarrow> [] | x # xs \<Rightarrow> if atom_ok a x then [xs] else [])"
| "item_match (Many a) s = many a s"
| "item_match (Maybe p) s = items_match p s @ [s]"
| "items_match [] s = [s]"
| "items_match (i # rest) s = concat (map (items_match rest) (item_match i s))"

text \<open>\<^verbatim>\<open>pattern.test(text)\<close>: the pattern matches at some position.\<close>

fun rx_test :: "item list \<Rightarrow> string \<Rightarrow> bool" where
  "rx_test p [] = (items_match p [] \<noteq> [])"
| "rx_test p (x # xs) = (items_match p (x # xs) \<noteq> [] \<or> rx_test p xs)"

definition lit :: "string \<Rightarrow> item list" where
  "lit s = map (\<lambda>c. One (Chr c)) s"

text \<open>\<^verbatim>\<open>text.includes(word)\<close>.\<close>

fun starts_with :: "string \<Rightarrow> string \<Rightarrow> bool" where
  "starts_with s [] = True"
| "starts_with [] (w # ws) = False"
| "starts_with (x # xs) (w # ws) = (x = w \<and> starts_with xs ws)"

fun js_includes :: "string \<Rightarrow> string \<Rightarrow> bool" where
  "js_includes [] w = starts_with [] w"
| "js_includes (x # xs) w = (starts_with (x # xs) w \<or> js_includes xs w)"

definition BLOCKED_WORDS :: "string list" where
  "BLOCKED_WORDS = [''explicit-word-1'', ''explicit-word-2'']"

text \<open>Each pattern with its source text, which \<^verbatim>\<open>p.toString()\<close> reports.\<close>

definition SPAM_PATTERNS :: "(string \<times> item list) list" where
  "SPAM_PATTERNS =
     [(''/buy'' @ [CHR 0x5C] @ ''s+now/i'', lit ''buy'' @ [Many Space] @ lit ''now''),
      (''/click'' @ [CHR 0x5C] @ ''s+here/i'', lit ''click'' @ [Many Space] @ lit ''here''),
      (''/limited'' @ [CHR 0x5C] @ ''s+time'' @ [CHR 0x5C] @ ''s+offer/i'',
       lit ''limited'' @ [Many Space] @ lit ''time'' @ [Many Space] @ lit ''offer''),
      (''/act'' @ [CHR 0x5C] @ ''s+now/i'', lit ''act'' @ [Many Space] @ lit ''now''),
      (''/free'' @ [CHR 0x5C] @ ''s+money/i'', lit ''free'' @ [Many Space] @ lit ''money''),
      (''/make'' @ [CHR 0x5C] @ ''s+'' @ [CHR 0x5C] @ ''$?'' @ [CHR 0x5C] @ ''d+/i'',
       lit ''make'' @ [Many Space, Maybe [One (Chr (CHR ''$''))], Many Digit]),
      (''/earn'' @ [CHR 0x5C] @ ''s+'' @ [CHR 0x5C] @ ''$?'' @ [CHR 0x5C] @ ''d+/i'',
       lit ''earn'' @ [Many Space, Maybe [One (Chr (CHR ''$''))], Many Digit])]"

definition SCAM_PATTERNS :: "(string \<times> item list) list" where
  "SCAM_PATTERNS =
     [(''/send'' @ [CHR 0x5C] @ ''s+(me'' @ [CHR 0x5C] @ ''s+)?money/i'',
       lit ''send'' @ [Many Space, Maybe (lit ''me'' @ [Many Space])] @ lit ''money''),
      (''/wire'' @ [CHR 0x5C] @ ''s+transfer/i'', lit ''wire'' @ [Many Space] @ lit ''transfer''),
      (''/western'' @ [CHR 0x5C] @ ''s+union/i'', lit ''western'' @ [Many Space] @ lit ''union''),
      (''/bitcoin'' @ [CHR 0x5C] @ ''s+wallet/i'', lit ''bitcoin'' @ [Many Space] @ lit ''wallet''),
      (''/crypto'' @ [CHR 0x5C] @ ''s+wallet/i'', lit ''crypto'' @ [Many Space] @ lit ''wallet''),
      (''/pay'' @ [CHR 0x5C] @ ''s+outside/i'', lit ''pay'' @ [Many Space] @ lit ''outside''),
      (''/contact'' @ [CHR 0x5C] @ ''s+me'' @ [CHR 0x5C] @ ''s+at/i'',
       lit ''contact'' @ [Many Space] @ lit ''me'' @ [Many Space] @ lit ''at'')]"

text \<open>
  The result of one check: \<^verbatim>\<open>isClean\<close> and the flagged words or matched patterns.
  The argument is \<open>None\<close> when the caller passes something that is not a string; that
  and the empty string are answered as clean.
\<close>

record check_result =
  isClean :: bool
  matches :: "string list"

definition checkForBlockedWords :: "string option \<Rightarrow> check_result" where
  "checkForBlockedWords text =
     (if falsy text then \<lparr>isClean = True, matches = []\<rparr>
      else
        (let lowerText = map lower (js_or text []);
             flaggedWords = filter (\<lambda>word. js_includes lowerText (map lower word)) BLOCKED_WORDS
         in \<lparr>isClean = (length flaggedWords = 0), matches = flaggedWords\<rparr>))"

definition checkForSpam :: "string option \<Rightarrow> check_result" where
  "checkForSpam text =
     (if falsy text then \<lparr>isClean = True, matches = []\<rparr>
      else
        (let matchedPatterns =
               map fst (filter (\<lambda>pattern. rx_test (snd pattern) (js_or text [])) SPAM_PATTERNS)
         in \<lparr>isClean = (length matchedPatterns = 0), matches = matchedPatterns\<rparr>))"

definition checkForScam :: "string option \<Rightarrow> check_result" where
  "checkForScam text =
     (if falsy text then \<lparr>isClean = True, matches = []\<rparr>
      else
        (let matchedPatterns =
               map fst (filter (\<lambda>pattern. rx_test (snd pattern) (js_or text [])) SCAM_PATTERNS)
         in \<lparr>isClean = (length matchedPatterns = 0), matches = matchedPatterns\<rparr>))"

record analysis =
  analysis_isClean :: bool
  issues :: "(string \<times> string list) list"
  riskLevel :: string

definition analyzeContent :: "string option \<Rightarrow> analysis" where
  "analyzeContent text =
     (let blockedWordsResult = checkForBlockedWords text;
          spamResult = checkForSpam text;
          scamResult = checkForScam text;
          clean = (isClean blockedWordsResult \<and> isClean spamResult \<and> isClean scamResult);
          issues1 = (if \<not> isClean blockedWordsResult
                     then [(''blocked_words'', matches blockedWordsResult)] else []);
          issues2 = (if \<not> isClean spamResult
                     then issues1 @ [(''spam'', matches spamResult)] else issues1);
          issues3 = (if \<not> isClean scamResult
                     then issues2 @ [(''scam'', matches scamResult)] else issues2)
      in \<lparr>analysis_isClean = clean, issues = issues3,
          riskLevel = (if clean then ''low''
                       else if length issues3 \<ge> 2 then ''high'' else ''medium'')\<rparr>)"

section \<open>The operations that write the database\<close>

text \<open>
  The state of the running server: the database and the monitor's alerted set. An
  operation is one request of a writing route, with its parameters (a submission also
  with the two clock readings of \<^verbatim>\<open>Report.create\<close>), or one run of the breach sweep
  or of the monitor. \<open>apply_operation now op\<close> is the state after the
  operation has run at time \<open>now\<close>.
\<close>

record system =
  sys_db :: db
  sys_alerted :: "alert_key list"

datatype operation =
    ReportImage date date objectId objectId "objectId option" "string option" "string option"
  | ReportUser date date objectId objectId "objectId option" "string option" "string option"
  | PatchStatus objectId "objectId option" "string option"
  | WarnUser objectId "objectId option" "string option"
  | SuspendUser "int \<Rightarrow> string" "date \<Rightarrow> string" objectId "objectId option" "int option"
      "string option"
  | BanUser objectId "objectId option" "string option"
  | RemoveContent objectId "objectId option" "bool option" "string option"
  | Dismiss objectId "objectId option" "string option"
  | BlockUser objectId "objectId option" "string option"
  | UnblockUser objectId "objectId option"
  | MarkBreached
  | MonitorCycle "alert_email \<Rightarrow> bool"

fun apply_operation :: "date \<Rightarrow> operation \<Rightarrow> system \<Rightarrow> system" where
  "apply_operation now (ReportImage built saved newId reporter imageIdp reasonp descp) sys =
     sys\<lparr>sys_db := snd (report_image now built saved newId reporter imageIdp reasonp descp
                         (sys_db sys))\<rparr>"
| "apply_operation now (ReportUser built saved newId reporter userIdp reasonp descp) sys =
     sys\<lparr>sys_db := snd (report_user now built saved newId reporter userIdp reasonp descp
                         (sys_db sys))\<rparr>"
| "apply_operation now (PatchStatus admin idp statusp) sys =
     sys\<lparr>sys_db := snd (patch_status now admin idp statusp (sys_db sys))\<rparr>"
| "apply_operation now (WarnUser admin idp msg) sys =
     sys\<lparr>sys_db := snd (warn_user now admin idp msg (sys_db sys))\<rparr>"
| "apply_operation now (SuspendUser str localeDate admin idp days msg) sys =
     sys\<lparr>sys_db := snd (suspend_user str localeDate now admin idp days msg (sys_db sys))\<rparr>"
| "apply_operation now (BanUser admin idp why) sys =
     sys\<lparr>sys_db := snd (ban_user now admin idp why (sys_db sys))\<rparr>"
| "apply_operation now (RemoveContent admin idp notify why) sys =
     sys\<lparr>sys_db := snd (remove_content now admin idp notify why (sys_db sys))\<rparr>"
| "apply_operation now (Dismiss admin idp why) sys =
     sys\<lparr>sys_db := snd (dismiss now admin idp why (sys_db sys))\<rparr>"
| "apply_operation now (BlockUser blocker userIdp why) sys =
     sys\<lparr>sys_db := snd (block_user blocker userIdp why (sys_db sys))\<rparr>"
| "apply_operation now (UnblockUser blocker userIdp) sys =
     sys\<lparr>sys_db := snd (unblock_user blocker userIdp (sys_db sys))\<rparr>"
| "apply_operation now MarkBreached sys =
     sys\<lparr>sys_db := (sys_db sys)\<lparr>reports := markBreachedReports now (reports (sys_db sys))\<rparr>\<rparr>"
| "apply_operation now (MonitorCycle send) sys =
     (let c = checkSLADeadlines send now (reports (sys_db sys)) (sys_alerted sys)
      in \<lparr>sys_db = (sys_db sys)\<lparr>reports := reports_after c\<rparr>,
          sys_alerted = alertedReports c\<rparr>)"

section \<open>Concrete data for the examples\<close>

definition sample_snapshot :: content_snapshot where
  "sample_snapshot =
     \<lparr>snap_imageLink = Some ''https://img/7.png'', snap_imageName = Some ''Sunset'',
      snap_imageDescription = None, snap_userName = Some ''Bob'',
      snap_userEmail = Some ''bob@example.com''\<rparr>"

definition sample_report :: report where
  "sample_report =
     \<lparr>report_id = 1, reporterUserId = 10, targetType = IMAGE, targetImageId = Some 7,
      targetUserId = Some 20, reason = ''spam'', description = [], status = PENDING,
      slaDeadline = 86400000, slaBreached = False, resolvedAt = None,
      resolvedByAdminId = None, resolutionAction = None, resolutionNotes = None,
      contentSnapshot = sample_snapshot, createdAt = 0, updatedAt = 0\<rparr>"

definition resolved_report :: report where
  "resolved_report =
     sample_report\<lparr>status := RESOLVED, resolvedAt := Some 5000,
                   resolvedByAdminId := Some 99,
                   resolutionAction := Some WARNING_ISSUED, updatedAt := 5000\<rparr>"

definition resolved_db :: db where
  "resolved_db = \<lparr>reports = [resolved_report], users = [], images = [],
                  notifications = [], blocks = []\<rparr>"

definition sample_image :: image where
  "sample_image =
     \<lparr>image_id = 7, image_userId = 20, image_name = Some ''Sunset'',
      imageLink = Some ''https://img/7.png'', image_description = None,
      category = ''paintings''\<rparr>"

definition orphan_db :: db where
  "orphan_db = \<lparr>reports = [sample_report], users = [], images = [sample_image],
                notifications = [], blocks = []\<rparr>"

definition sample_owner :: user where
  "sample_owner =
     \<lparr>user_id = 20, user_name = Some ''Bob'', user_email = Some ''bob@example.com'',
      moderationStatus = Active, warningCount = 0, suspendedUntil = None,
      banReason = None, lastModerationAction = None, user_updatedAt = 0\<rparr>"

definition handled_db :: db where
  "handled_db = \<lparr>reports = [resolved_report], users = [sample_owner],
                 images = [sample_image], notifications = [], blocks = []\<rparr>"

definition fresh_db :: db where
  "fresh_db = \<lparr>reports = [], users = [sample_owner], images = [sample_image],
               notifications = [], blocks = []\<rparr>"

definition report_due :: "objectId \<Rightarrow> date \<Rightarrow> report" where
  "report_due i deadline = sample_report\<lparr>report_id := i, slaDeadline := deadline\<rparr>"

definition three_reports :: "report list" where
  "three_reports =
     [report_due 3 (1000000 + 10 * 60 * 60 * 1000),
      report_due 2 (1000000 + 2 * 60 * 60 * 1000),
      report_due 1 (1000000 + 30 * 60 * 1000)]"

definition two_cycles :: "cycle_input list" where
  "two_cycles =
     [\<lparr>cycle_send = (\<lambda>e. True), cycle_now = 1000000, cycle_reports = three_reports\<rparr>,
      \<lparr>cycle_send = (\<lambda>e. True), cycle_now = 1000000 + 15 * 60 * 1000,
       cycle_reports = report_due 4 (1000000 + 40 * 60 * 1000) # three_reports\<rparr>]"

definition blocked_db :: db where
  "blocked_db = \<lparr>reports = [], users = [sample_owner], images = [sample_image],
                 notifications = [],
                 blocks = [\<lparr>blockerUserId = 10, blockedUserId = 20, block_reason = None\<rparr>]\<rparr>"

definition monitored_system :: system where
  "monitored_system =
     \<lparr>sys_db = \<lparr>reports = three_reports, users = [sample_owner], images = [sample_image],
                notifications = [], blocks = []\<rparr>,
      sys_alerted = []\<rparr>"

section \<open>Properties of the collection primitives\<close>

lemma findById_update_first_same:
  assumes "\<And>x. idf (f x) = idf x"
  shows "findById idf i (update_first (\<lambda>x. idf x = i) f xs) = map_option f (findById idf i xs)"
  using assms by (induction xs) (auto simp: findById_def)

lemma update_first_no_match:
  "findById idf i xs = None \<Longrightarrow> update_first (\<lambda>x. idf x = i) f xs = xs"
  by (induction xs) (auto simp: findById_def split: if_splits)

lemma status_of_string_valid:
  "status_of_string str = Some st \<Longrightarrow> str \<noteq> [] \<and> str \<in> set REPORT_STATUS_values"
  by (auto simp: status_of_string_def REPORT_STATUS_values_def split: if_splits)

lemma findByIdAndUpdate_missing:
  "findById idf i xs = None \<Longrightarrow> findByIdAndUpdate idf i f xs = (None, xs)"
  by (simp add: findByIdAndUpdate_def update_first_no_match)

lemma findById_delete_first:
  "distinct (map idf xs) \<Longrightarrow> findById idf i (delete_first (\<lambda>x. idf x = i) xs) = None"
proof (induction xs)
  case Nil
  then show ?case by (simp add: findById_def)
next
  case (Cons x xs)
  show ?case
  proof (cases "idf x = i")
    case True
    with Cons.prems have "i \<notin> set (map idf xs)" by simp
    then have "\<forall>y \<in> set xs. idf y \<noteq> i" by auto
    then have "find (\<lambda>y. idf y = i) xs = None" by (simp add: find_None_iff)
    with True show ?thesis by (simp add: findById_def)
  next
    case False
    with Cons show ?thesis by (simp add: findById_def)
  qed
qed

section \<open>C1: transitions out of a terminal status\<close>

text \<open>
  C1 claims that a report whose status is resolved or dismissed never changes status
  again. The status route does not look at the current status: on a resolved report it
  answers 200 to the request "pending" and the report is pending afterwards.
\<close>

theorem patch_status_leaves_terminal_counterexample:
  "map status (reports resolved_db) = [RESOLVED] \<and>
   fst (patch_status 6000 99 (Some 1) (Some ''pending'') resolved_db) =
     Success 200 ''Report status updated to pending'' \<and>
   map status (reports (snd (patch_status 6000 99 (Some 1) (Some ''pending'') resolved_db))) =
     [PENDING]"
  by (simp add: patch_status_def resolved_db_def resolved_report_def sample_report_def
      REPORT_STATUS_values_def status_of_string_def findByIdAndUpdate_def findById_def)

text \<open>
  C1 (amended): the status operation performs every transition between the four
  statuses, also out of resolved or dismissed: for an existing report and a status
  string of the enumeration it answers 200 and the report then has the requested status,
  whatever its status was.
\<close>

theorem patch_status_sets_requested_status:
  assumes found: "findById report_id i (reports s) = Some r"
    and valid: "status_of_string str = Some st"
  shows "fst (patch_status now admin (Some i) (Some str) s) =
           Success 200 (''Report status updated to '' @ str) \<and>
         map_option status
           (findById report_id i (reports (snd (patch_status now admin (Some i) (Some str) s)))) =
           Some st"
proof -
  from valid have ok: "str \<noteq> []" "str \<in> set REPORT_STATUS_values"
    using status_of_string_valid by blast+
  show ?thesis
  proof (cases "st = RESOLVED \<or> st = DISMISSED")
    case True
    then show ?thesis
      using found valid ok
      by (auto simp: patch_status_def findByIdAndUpdate_def findById_update_first_same)
  next
    case False
    then show ?thesis
      using found valid ok
      by (auto simp: patch_status_def findByIdAndUpdate_def findById_update_first_same)
  qed
qed

theorem patch_status_sets_requested_status_witness:
  "findById report_id 1 (reports resolved_db) = Some resolved_report \<and>
   status resolved_report = RESOLVED \<and>
   status_of_string ''under_review'' = Some UNDER_REVIEW \<and>
   map_option status
     (findById report_id 1
        (reports (snd (patch_status 6000 99 (Some 1) (Some ''under_review'') resolved_db)))) =
     Some UNDER_REVIEW"
proof -
  have f: "findById report_id 1 (reports resolved_db) = Some resolved_report"
    by (simp add: findById_def resolved_db_def resolved_report_def sample_report_def)
  have v: "status_of_string ''under_review'' = Some UNDER_REVIEW"
    by (simp add: status_of_string_def)
  have "status resolved_report = RESOLVED"
    by (simp add: resolved_report_def)
  with f v patch_status_sets_requested_status [OF f v, of 6000 99] show ?thesis
    by simp
qed

section \<open>C7: removing content that is already gone\<close>

text \<open>
  C7: a remove-content action on an existing report whose targetImageId names no image
  answers 200 "Content was already removed" and resolves the report with
  resolutionAction content_removed. Consequently, with image ids unique in the
  collection, a second remove-content call on the same report, after a first call that
  answered 200, answers 200 through the already-removed branch.
\<close>

theorem remove_content_already_removed:
  assumes rep: "findById report_id i (reports s) = Some rep"
    and tgt: "targetImageId rep = Some im"
  shows "(findById image_id im (images s) = None \<longrightarrow>
            fst (remove_content now admin (Some i) notify why s) =
              Success 200 ''Content was already removed'' \<and>
            map_option (\<lambda>r. (status r, resolutionAction r))
              (findById report_id i (reports (snd (remove_content now admin (Some i) notify why s)))) =
              Some (RESOLVED, Some CONTENT_REMOVED)) \<and>
         (distinct (map image_id (images s)) \<longrightarrow>
            (\<exists>m. fst (remove_content now admin (Some i) notify why s) = Success 200 m) \<and>
            fst (remove_content now2 admin2 (Some i) notify2 why2
                   (snd (remove_content now admin (Some i) notify why s))) =
              Success 200 ''Content was already removed'')"
proof -
  let ?s1 = "snd (remove_content now admin (Some i) notify why s)"
  have gone: "fst (remove_content t a (Some i) n w d) = Success 200 ''Content was already removed'' \<and>
      map_option (\<lambda>r. (status r, resolutionAction r))
        (findById report_id i (reports (snd (remove_content t a (Some i) n w d)))) =
        Some (RESOLVED, Some CONTENT_REMOVED)"
    if "findById report_id i (reports d) = Some rep'" "targetImageId rep' = Some im"
      "findById image_id im (images d) = None" for t a n w d rep'
    using that
    by (simp add: remove_content_def findByIdAndUpdate_def findById_update_first_same)
  have first: "findById image_id im (images s) = None \<longrightarrow>
      fst (remove_content now admin (Some i) notify why s) =
        Success 200 ''Content was already removed'' \<and>
      map_option (\<lambda>r. (status r, resolutionAction r))
        (findById report_id i (reports ?s1)) = Some (RESOLVED, Some CONTENT_REMOVED)"
    using gone [OF rep tgt] by blast
  have second: "(\<exists>m. fst (remove_content now admin (Some i) notify why s) = Success 200 m) \<and>
      fst (remove_content now2 admin2 (Some i) notify2 why2 ?s1) =
        Success 200 ''Content was already removed''"
    if d: "distinct (map image_id (images s))"
  proof (cases "findById image_id im (images s)")
    case None
    have ok: "\<exists>m. fst (remove_content now admin (Some i) notify why s) = Success 200 m"
      using rep tgt None by (simp add: remove_content_def)
    have r1: "\<exists>rep'. findById report_id i (reports ?s1) = Some rep' \<and> targetImageId rep' = Some im"
      using rep tgt None
      by (simp add: remove_content_def findByIdAndUpdate_def findById_update_first_same)
    have i1: "findById image_id im (images ?s1) = None"
      using rep tgt None by (simp add: remove_content_def)
    from r1 i1 gone ok show ?thesis by blast
  next
    case (Some img)
    have ok: "\<exists>m. fst (remove_content now admin (Some i) notify why s) = Success 200 m"
      using rep tgt Some by (simp add: remove_content_def Let_def split: option.splits)
    have r1: "\<exists>rep'. findById report_id i (reports ?s1) = Some rep' \<and> targetImageId rep' = Some im"
      using rep tgt Some
      by (simp add: remove_content_def findByIdAndUpdate_def findById_update_first_same Let_def
          split: option.splits)
    have i1: "findById image_id im (images ?s1) = None"
      using rep tgt Some d
      by (simp add: remove_content_def findById_delete_first Let_def split: option.splits)
    from r1 i1 gone ok show ?thesis by blast
  qed
  from first second show ?thesis by blast
qed

theorem remove_content_already_removed_witness:
  "findById report_id 1 (reports orphan_db) = Some sample_report \<and>
   targetImageId sample_report = Some 7 \<and>
   distinct (map image_id (images orphan_db)) \<and>
   fst (remove_content 6000 99 (Some 1) None None orphan_db) =
     Success 200 ''Content removed successfully'' \<and>
   findById image_id 7 (images (snd (remove_content 6000 99 (Some 1) None None orphan_db))) = None \<and>
   fst (remove_content 7000 99 (Some 1) None None
          (snd (remove_content 6000 99 (Some 1) None None orphan_db))) =
     Success 200 ''Content was already removed'' \<and>
   map_option (\<lambda>r. (status r, resolutionAction r))
     (findById report_id 1
        (reports (snd (remove_content 7000 99 (Some 1) None None
           (snd (remove_content 6000 99 (Some 1) None None orphan_db)))))) =
     Some (RESOLVED, Some CONTENT_REMOVED)"
proof -
  let ?s1 = "snd (remove_content 6000 99 (Some 1) None None orphan_db)"
  have r: "findById report_id 1 (reports orphan_db) = Some sample_report"
    by (simp add: findById_def orphan_db_def sample_report_def)
  have t: "targetImageId sample_report = Some 7"
    by (simp add: sample_report_def)
  have d: "distinct (map image_id (images orphan_db))"
    by (simp add: orphan_db_def)
  have f: "fst (remove_content 6000 99 (Some 1) None None orphan_db) =
      Success 200 ''Content removed successfully''"
    by (simp add: remove_content_def findById_def orphan_db_def sample_report_def
        sample_image_def)
  have r1: "\<exists>rep'. findById report_id 1 (reports ?s1) = Some rep' \<and> targetImageId rep' = Some 7"
    by (simp add: remove_content_def findById_def findByIdAndUpdate_def orphan_db_def
        sample_report_def sample_image_def)
  then obtain rep' where r1': "findById report_id 1 (reports ?s1) = Some rep'"
    and t1: "targetImageId rep' = Some 7" by blast
  have i1: "findById image_id 7 (images ?s1) = None"
    by (simp add: remove_content_def findById_def orphan_db_def sample_report_def
        sample_image_def)
  from remove_content_already_removed [OF r t, of 6000 99 None None 7000 99 None None] d
  have second: "fst (remove_content 7000 99 (Some 1) None None ?s1) =
      Success 200 ''Content was already removed''" by blast
  from remove_content_already_removed [OF r1' t1, of 7000 99 None None 7000 99 None None] i1
  have res: "map_option (\<lambda>r. (status r, resolutionAction r))
     (findById report_id 1 (reports (snd (remove_content 7000 99 (Some 1) None None ?s1)))) =
     Some (RESOLVED, Some CONTENT_REMOVED)" by blast
  from r t d f i1 second res show ?thesis by blast
qed

section \<open>C10: a moderation action whose target user is missing\<close>

text \<open>
  What the three actions do on an existing report whose targetUserId names no user: the
  database is unchanged in every case; warn-user answers 404; ban-user answers 404 when
  it carries a reason (400 before the report is read otherwise); suspend-user answers
  404 when the suspension date is a valid Date, and 500 when it is not.
\<close>

lemma moderation_action_missing_user:
  assumes rep: "findById report_id i (reports s) = Some rep"
    and tgt: "targetUserId rep = Some u"
    and nouser: "findById user_id u (users s) = None"
  shows "warn_user now admin (Some i) msg s = (Error 404 ''Target user not found'', s) \<and>
         suspend_user str localeDate now admin (Some i) days msg s =
           (if valid_date (now + (case days of None \<Rightarrow> 7 | Some d \<Rightarrow> d) * 24 * 60 * 60 * 1000)
            then (Error 404 ''Target user not found'', s)
            else (Error 500 ''Internal Server Error'', s)) \<and>
         ban_user now admin (Some i) why s =
           (if falsy why then (Error 400 ''Ban reason is required'', s)
            else (Error 404 ''Target user not found'', s))"
proof -
  have same: "s\<lparr>users := users s\<rparr> = s" by simp
  have w: "warn_user now admin (Some i) msg s = (Error 404 ''Target user not found'', s)"
    using rep tgt nouser by (simp add: warn_user_def findByIdAndUpdate_missing)
  have su: "suspend_user str localeDate now admin (Some i) days msg s =
      (if valid_date (now + (case days of None \<Rightarrow> 7 | Some d \<Rightarrow> d) * 24 * 60 * 60 * 1000)
       then (Error 404 ''Target user not found'', s)
       else (Error 500 ''Internal Server Error'', s))"
    using rep tgt nouser by (simp add: suspend_user_def findByIdAndUpdate_missing Let_def)
  have b: "ban_user now admin (Some i) why s =
             (if falsy why then (Error 400 ''Ban reason is required'', s)
              else (Error 404 ''Target user not found'', s))"
    using rep tgt nouser by (simp add: ban_user_def findByIdAndUpdate_missing)
  from w su b show ?thesis by simp
qed

text \<open>
  C10 says that a suspend-user action on an existing report whose target user does not
  exist answers 404 with the state unchanged. The handler does not validate
  durationDays: with durationDays = 100000000 the suspension date is outside the range
  of a Date, the user update throws on the Invalid Date before the null check that
  answers 404 is reached, and the answer is 500 (the state is unchanged). With the
  default duration the same request answers 404, as do warn-user and ban-user with a
  reason.
\<close>

theorem suspend_user_invalid_date_answers_500:
  "findById report_id 1 (reports orphan_db) = Some sample_report \<and>
   targetUserId sample_report = Some 20 \<and>
   findById user_id 20 (users orphan_db) = None \<and>
   suspend_user (\<lambda>n. ''100000000'') (\<lambda>d. ''Invalid Date'') 1700000000000 99 (Some 1)
       (Some 100000000) None orphan_db =
     (Error 500 ''Internal Server Error'', orphan_db) \<and>
   suspend_user (\<lambda>n. ''7'') (\<lambda>d. ''1/8/1970'') 1700000000000 99 (Some 1) None None orphan_db =
     (Error 404 ''Target user not found'', orphan_db) \<and>
   warn_user 1700000000000 99 (Some 1) None orphan_db =
     (Error 404 ''Target user not found'', orphan_db) \<and>
   ban_user 1700000000000 99 (Some 1) (Some ''fraud'') orphan_db =
     (Error 404 ''Target user not found'', orphan_db)"
proof -
  have r: "findById report_id 1 (reports orphan_db) = Some sample_report"
    by (simp add: findById_def orphan_db_def sample_report_def)
  have t: "targetUserId sample_report = Some 20"
    by (simp add: sample_report_def)
  have n: "findById user_id 20 (users orphan_db) = None"
    by (simp add: findById_def orphan_db_def)
  have nf: "\<not> falsy (Some ''fraud'')"
    by (simp add: falsy_def)
  have far: "\<not> valid_date (1700000000000 + 100000000 * 24 * 60 * 60 * 1000)"
    by (simp add: valid_date_def)
  have near: "valid_date (1700000000000 + 7 * 24 * 60 * 60 * 1000)"
    by (simp add: valid_date_def)
  from moderation_action_missing_user [OF r t n, of 1700000000000 99 None
      "\<lambda>n. ''100000000''" "\<lambda>d. ''Invalid Date''" "Some 100000000" "Some ''fraud''"] far nf
  have a: "suspend_user (\<lambda>n. ''100000000'') (\<lambda>d. ''Invalid Date'') 1700000000000 99 (Some 1)
        (Some 100000000) None orphan_db = (Error 500 ''Internal Server Error'', orphan_db) \<and>
      warn_user 1700000000000 99 (Some 1) None orphan_db =
        (Error 404 ''Target user not found'', orphan_db) \<and>
      ban_user 1700000000000 99 (Some 1) (Some ''fraud'') orphan_db =
        (Error 404 ''Target user not found'', orphan_db)"
    by simp
  from moderation_action_missing_user [OF r t n, of 1700000000000 99 None
      "\<lambda>n. ''7''" "\<lambda>d. ''1/8/1970''" None None] near
  have b: "suspend_user (\<lambda>n. ''7'') (\<lambda>d. ''1/8/1970'') 1700000000000 99 (Some 1) None None
        orphan_db = (Error 404 ''Target user not found'', orphan_db)"
    by simp
  from r t n a b show ?thesis by blast
qed

section \<open>C2: the duplicate-report window\<close>

text \<open>
  C2 claims that a second submission is rejected only when an unresolved report of the
  same reporter against the same target was created in the last 24 hours, and is
  accepted when the earlier report is resolved or dismissed. The duplicate query does
  not read the status: with the only earlier report resolved, the second submission is
  answered 409.
\<close>

theorem resolved_duplicate_rejected_counterexample:
  "map (\<lambda>r. (reporterUserId r, targetImageId r, status r, createdAt r)) (reports handled_db) =
     [(10, Some 7, RESOLVED, 0)] \<and>
   report_image 6000 6000 6001 2 10 (Some 7) (Some ''spam'') None handled_db =
     (Error 409 ''You have already reported this content recently'', handled_db)"
  by (simp add: report_image_def handled_db_def resolved_report_def sample_report_def
      sample_image_def sample_owner_def falsy_def js_or_def REPORT_REASON_values_def
      findById_def)

text \<open>
  C2 (amended): a submission that passes the earlier checks (well-formed id, reason of
  the enumeration, existing target that is not the reporter's own, description of at
  most 1000 characters) fails with 409 exactly when some report of the same reporter
  against the same target, of whatever status, has createdAt within the last 24 hours
  (createdAt \<ge> now - 24h); otherwise it is accepted with 201. For an image the target is
  the targetImageId; for a user it is the targetUserId of a report of target type user.
\<close>

theorem duplicate_window_ignores_status:
  assumes why: "why \<in> set REPORT_REASON_values"
    and len: "length (js_or descp []) \<le> 1000"
  shows "(findById image_id im (images s) = Some img \<and>
          findById user_id (image_userId img) (users s) = Some owner \<and>
          image_userId img \<noteq> reporter \<longrightarrow>
            fst (report_image now built saved newId reporter (Some im) (Some why) descp s) =
              (if \<exists>r \<in> set (reports s). reporterUserId r = reporter \<and>
                     targetImageId r = Some im \<and> now - 24 * 60 * 60 * 1000 \<le> createdAt r
               then Error 409 ''You have already reported this content recently''
               else Success 201 submitted)) \<and>
         (findById user_id u (users s) = Some target \<and> u \<noteq> reporter \<longrightarrow>
            fst (report_user now built saved newId reporter (Some u) (Some why) descp s) =
              (if \<exists>r \<in> set (reports s). reporterUserId r = reporter \<and>
                     targetUserId r = Some u \<and> targetType r = USER \<and>
                     now - 24 * 60 * 60 * 1000 \<le> createdAt r
               then Error 409 ''You have already reported this user recently''
               else Success 201 submitted))"
proof -
  from why have ne: "why \<noteq> []"
    by (auto simp: REPORT_REASON_values_def)
  then have valid: "\<not> (falsy (Some why) \<or> js_or (Some why) [] \<notin> set REPORT_REASON_values)"
    using why by (simp add: falsy_def js_or_def)
  have img_route: "fst (report_image now built saved newId reporter (Some im) (Some why) descp s) =
      (if \<exists>r \<in> set (reports s). reporterUserId r = reporter \<and>
             targetImageId r = Some im \<and> now - 24 * 60 * 60 * 1000 \<le> createdAt r
       then Error 409 ''You have already reported this content recently''
       else Success 201 submitted)"
    if i: "findById image_id im (images s) = Some img"
      and o: "findById user_id (image_userId img) (users s) = Some owner"
      and self: "image_userId img \<noteq> reporter"
  proof -
    from o have oid: "user_id owner = image_userId img"
      by (auto simp: findById_def find_Some_iff)
    show ?thesis
    proof (cases "find (\<lambda>r. reporterUserId r = reporter \<and> targetImageId r = Some im \<and>
                            createdAt r \<ge> now - 24 * 60 * 60 * 1000) (reports s)")
      case None
      then have "\<not> (\<exists>r \<in> set (reports s). reporterUserId r = reporter \<and>
             targetImageId r = Some im \<and> now - 24 * 60 * 60 * 1000 \<le> createdAt r)"
        by (simp add: find_None_iff)
      with None i o oid self valid len show ?thesis
        by (simp add: report_image_def Report_create_def Let_def)
    next
      case (Some r)
      then have "\<exists>r \<in> set (reports s). reporterUserId r = reporter \<and>
             targetImageId r = Some im \<and> now - 24 * 60 * 60 * 1000 \<le> createdAt r"
        by (auto simp: find_Some_iff)
      with Some i o oid self valid show ?thesis
        by (simp add: report_image_def)
    qed
  qed
  have user_route: "fst (report_user now built saved newId reporter (Some u) (Some why) descp s) =
      (if \<exists>r \<in> set (reports s). reporterUserId r = reporter \<and>
             targetUserId r = Some u \<and> targetType r = USER \<and>
             now - 24 * 60 * 60 * 1000 \<le> createdAt r
       then Error 409 ''You have already reported this user recently''
       else Success 201 submitted)"
    if t: "findById user_id u (users s) = Some target" and self: "u \<noteq> reporter"
  proof -
    from t have tid: "user_id target = u"
      by (auto simp: findById_def find_Some_iff)
    show ?thesis
    proof (cases "find (\<lambda>r. reporterUserId r = reporter \<and> targetUserId r = Some u \<and>
                            targetType r = USER \<and>
                            createdAt r \<ge> now - 24 * 60 * 60 * 1000) (reports s)")
      case None
      then have "\<not> (\<exists>r \<in> set (reports s). reporterUserId r = reporter \<and>
             targetUserId r = Some u \<and> targetType r = USER \<and>
             now - 24 * 60 * 60 * 1000 \<le> createdAt r)"
        by (simp add: find_None_iff)
      with None t tid self valid len show ?thesis
        by (simp add: report_user_def Report_create_def Let_def)
    next
      case (Some r)
      then have "\<exists>r \<in> set (reports s). reporterUserId r = reporter \<and>
             targetUserId r = Some u \<and> targetType r = USER \<and>
             now - 24 * 60 * 60 * 1000 \<le> createdAt r"
        by (auto simp: find_Some_iff)
      with Some t tid self valid show ?thesis
        by (simp add: report_user_def)
    qed
  qed
  from img_route user_route show ?thesis by blast
qed

theorem duplicate_window_ignores_status_witness:
  "''spam'' \<in> set REPORT_REASON_values \<and>
   findById image_id 7 (images fresh_db) = Some sample_image \<and>
   findById user_id 20 (users fresh_db) = Some sample_owner \<and>
   fst (report_image 6000 6000 6001 1 10 (Some 7) (Some ''spam'') None fresh_db) =
     Success 201 submitted \<and>
   fst (report_image 7000 7000 7001 2 10 (Some 7) (Some ''spam'') None
          (snd (report_image 6000 6000 6001 1 10 (Some 7) (Some ''spam'') None fresh_db))) =
     Error 409 ''You have already reported this content recently'' \<and>
   fst (report_user 6000 6000 6001 1 10 (Some 20) (Some ''spam'') None fresh_db) =
     Success 201 submitted \<and>
   fst (report_user 7000 7000 7001 2 10 (Some 20) (Some ''spam'') None
          (snd (report_user 6000 6000 6001 1 10 (Some 20) (Some ''spam'') None fresh_db))) =
     Error 409 ''You have already reported this user recently''"
proof -
  let ?s1 = "snd (report_image 6000 6000 6001 1 10 (Some 7) (Some ''spam'') None fresh_db)"
  let ?s2 = "snd (report_user 6000 6000 6001 1 10 (Some 20) (Some ''spam'') None fresh_db)"
  have why: "''spam'' \<in> set REPORT_REASON_values"
    by (simp add: REPORT_REASON_values_def)
  have len: "length (js_or None []) \<le> 1000"
    by (simp add: js_or_def)
  have i0: "findById image_id 7 (images fresh_db) = Some sample_image"
    by (simp add: findById_def fresh_db_def sample_image_def)
  have o0: "findById user_id (image_userId sample_image) (users fresh_db) = Some sample_owner"
    by (simp add: findById_def fresh_db_def sample_image_def sample_owner_def)
  have u0: "findById user_id 20 (users fresh_db) = Some sample_owner"
    by (simp add: findById_def fresh_db_def sample_owner_def)
  have self: "image_userId sample_image \<noteq> 10" "(20::nat) \<noteq> 10"
    by (simp_all add: sample_image_def)
  have empty: "reports fresh_db = []"
    by (simp add: fresh_db_def)
  have s1: "images ?s1 = images fresh_db \<and> users ?s1 = users fresh_db \<and>
      map (\<lambda>r. (reporterUserId r, targetImageId r, createdAt r)) (reports ?s1) =
        [(10, Some 7, 6001)]"
    by (simp add: Let_def pre_save_def slaDeadline_default_def report_image_def Report_create_def fresh_db_def sample_image_def
        sample_owner_def falsy_def js_or_def REPORT_REASON_values_def findById_def)
  have s2: "users ?s2 = users fresh_db \<and>
      map (\<lambda>r. (reporterUserId r, targetUserId r, targetType r, createdAt r)) (reports ?s2) =
        [(10, Some 20, USER, 6001)]"
    by (simp add: Let_def pre_save_def slaDeadline_default_def report_user_def Report_create_def fresh_db_def sample_owner_def
        falsy_def js_or_def REPORT_REASON_values_def findById_def)
  from s1 obtain r1 where r1: "reports ?s1 = [r1]" "reporterUserId r1 = 10"
      "targetImageId r1 = Some 7" "createdAt r1 = 6001"
    by (cases "reports ?s1") auto
  from s2 obtain r2 where r2: "reports ?s2 = [r2]" "reporterUserId r2 = 10"
      "targetUserId r2 = Some 20" "targetType r2 = USER" "createdAt r2 = 6001"
    by (cases "reports ?s2") auto
  have a: "fst (report_image 6000 6000 6001 1 10 (Some 7) (Some ''spam'') None fresh_db) =
      Success 201 submitted"
    using duplicate_window_ignores_status [where im = 7 and s = fresh_db and img = sample_image
        and owner = sample_owner and reporter = 10 and now = 6000 and built = 6000 and saved = 6001 and newId = 1, OF why len] i0 o0 self empty by simp
  have b: "fst (report_image 7000 7000 7001 2 10 (Some 7) (Some ''spam'') None ?s1) =
      Error 409 ''You have already reported this content recently''"
    using duplicate_window_ignores_status [where im = 7 and s = ?s1 and img = sample_image
        and owner = sample_owner and reporter = 10 and now = 7000 and built = 7000 and saved = 7001 and newId = 2, OF why len] i0 o0 self s1 r1 by simp
  have c: "fst (report_user 6000 6000 6001 1 10 (Some 20) (Some ''spam'') None fresh_db) =
      Success 201 submitted"
    using duplicate_window_ignores_status [where u = 20 and s = fresh_db
        and target = sample_owner and reporter = 10 and now = 6000 and built = 6000 and saved = 6001 and newId = 1, OF why len] u0 self empty by simp
  have d: "fst (report_user 7000 7000 7001 2 10 (Some 20) (Some ''spam'') None ?s2) =
      Error 409 ''You have already reported this user recently''"
    using duplicate_window_ignores_status [where u = 20 and s = ?s2
        and target = sample_owner and reporter = 10 and now = 7000 and built = 7000 and saved = 7001 and newId = 2, OF why len] u0 self s2 r2 by simp
  from why i0 u0 a b c d show ?thesis by blast
qed

section \<open>C6: the SLA deadline of a new report\<close>

text \<open>
  C6 claims that every created report has slaDeadline = createdAt + 24 hours exactly.
  The deadline is computed from the clock when the document is constructed, createdAt
  is stamped when it is saved: with the save one millisecond after the construction,
  the stored deadline is createdAt + 24h - 1 ms.
\<close>

theorem deadline_one_ms_short_counterexample:
  "fst (report_image 6000 6000 6001 1 10 (Some 7) (Some ''spam'') None fresh_db) =
     Success 201 submitted \<and>
   map (\<lambda>r. (createdAt r, slaDeadline r))
     (reports (snd (report_image 6000 6000 6001 1 10 (Some 7) (Some ''spam'') None fresh_db))) =
     [(6001, 86406000)] \<and>
   (86406000 :: int) \<noteq> 6001 + 24 * 60 * 60 * 1000"
  by (simp add: Let_def pre_save_def slaDeadline_default_def report_image_def
      Report_create_def fresh_db_def sample_image_def sample_owner_def falsy_def js_or_def
      REPORT_REASON_values_def findById_def submitted_def)

text \<open>
  C6 (amended): every report that a submission creates (answer 201 on either route) is
  appended to the collection with slaDeadline equal to the clock reading at the
  construction of the document plus 24 hours, and createdAt equal to the clock reading
  at the save. So slaDeadline = createdAt + 24h exactly when the two readings are the
  same millisecond, and, the save not being before the construction, slaDeadline is at
  most createdAt + 24h.
\<close>

theorem created_report_deadline:
  "(fst (report_image now built saved newId reporter imp reasonp descp s) = Success 201 m \<longrightarrow>
      (\<exists>r. reports (snd (report_image now built saved newId reporter imp reasonp descp s)) =
             reports s @ [r] \<and>
           report_id r = newId \<and> createdAt r = saved \<and>
           slaDeadline r = built + 24 * 60 * 60 * 1000 \<and>
           (slaDeadline r = createdAt r + 24 * 60 * 60 * 1000 \<longleftrightarrow> built = saved) \<and>
           (built \<le> saved \<longrightarrow> slaDeadline r \<le> createdAt r + 24 * 60 * 60 * 1000))) \<and>
   (fst (report_user now built saved newId reporter up reasonp descp s) = Success 201 m \<longrightarrow>
      (\<exists>r. reports (snd (report_user now built saved newId reporter up reasonp descp s)) =
             reports s @ [r] \<and>
           report_id r = newId \<and> createdAt r = saved \<and>
           slaDeadline r = built + 24 * 60 * 60 * 1000 \<and>
           (slaDeadline r = createdAt r + 24 * 60 * 60 * 1000 \<longleftrightarrow> built = saved) \<and>
           (built \<le> saved \<longrightarrow> slaDeadline r \<le> createdAt r + 24 * 60 * 60 * 1000)))"
proof -
  have deadline: "pre_save saved (slaDeadline_default built None) = built + 24 * 60 * 60 * 1000"
    by (simp add: pre_save_def slaDeadline_default_def)
  have img: "fst (report_image now built saved newId reporter imp reasonp descp s) =
        Success 201 m \<longrightarrow>
      (\<exists>r. reports (snd (report_image now built saved newId reporter imp reasonp descp s)) =
             reports s @ [r] \<and>
           report_id r = newId \<and> createdAt r = saved \<and>
           slaDeadline r = built + 24 * 60 * 60 * 1000 \<and>
           (slaDeadline r = createdAt r + 24 * 60 * 60 * 1000 \<longleftrightarrow> built = saved) \<and>
           (built \<le> saved \<longrightarrow> slaDeadline r \<le> createdAt r + 24 * 60 * 60 * 1000))"
    by (auto simp: report_image_def Report_create_def deadline Let_def
        split: option.splits if_splits)
  have usr: "fst (report_user now built saved newId reporter up reasonp descp s) =
        Success 201 m \<longrightarrow>
      (\<exists>r. reports (snd (report_user now built saved newId reporter up reasonp descp s)) =
             reports s @ [r] \<and>
           report_id r = newId \<and> createdAt r = saved \<and>
           slaDeadline r = built + 24 * 60 * 60 * 1000 \<and>
           (slaDeadline r = createdAt r + 24 * 60 * 60 * 1000 \<longleftrightarrow> built = saved) \<and>
           (built \<le> saved \<longrightarrow> slaDeadline r \<le> createdAt r + 24 * 60 * 60 * 1000))"
    by (auto simp: report_user_def Report_create_def deadline Let_def
        split: option.splits if_splits)
  from img usr show ?thesis by blast
qed

theorem created_report_deadline_witness:
  "fst (report_image 6000 6000 6001 1 10 (Some 7) (Some ''spam'') None fresh_db) =
     Success 201 submitted \<and>
   fst (report_user 6000 6000 6000 1 10 (Some 20) (Some ''spam'') None fresh_db) =
     Success 201 submitted \<and>
   (\<exists>r. reports (snd (report_image 6000 6000 6001 1 10 (Some 7) (Some ''spam'') None fresh_db)) =
          reports fresh_db @ [r] \<and> createdAt r = 6001 \<and> slaDeadline r = 86406000 \<and>
        slaDeadline r \<le> createdAt r + 24 * 60 * 60 * 1000) \<and>
   (\<exists>r. reports (snd (report_user 6000 6000 6000 1 10 (Some 20) (Some ''spam'') None fresh_db)) =
          reports fresh_db @ [r] \<and> createdAt r = 6000 \<and>
        slaDeadline r = createdAt r + 24 * 60 * 60 * 1000)"
proof -
  have a: "fst (report_image 6000 6000 6001 1 10 (Some 7) (Some ''spam'') None fresh_db) =
      Success 201 submitted"
    by (simp add: Let_def pre_save_def slaDeadline_default_def report_image_def
        Report_create_def fresh_db_def sample_image_def sample_owner_def falsy_def js_or_def
        REPORT_REASON_values_def findById_def)
  have b: "fst (report_user 6000 6000 6000 1 10 (Some 20) (Some ''spam'') None fresh_db) =
      Success 201 submitted"
    by (simp add: Let_def pre_save_def slaDeadline_default_def report_user_def
        Report_create_def fresh_db_def sample_owner_def falsy_def js_or_def
        REPORT_REASON_values_def findById_def)
  from created_report_deadline [of 6000 6000 6001 1 10 "Some 7" "Some ''spam''" None fresh_db
      submitted] a
  have c: "\<exists>r. reports (snd (report_image 6000 6000 6001 1 10 (Some 7) (Some ''spam'') None
        fresh_db)) = reports fresh_db @ [r] \<and> createdAt r = 6001 \<and> slaDeadline r = 86406000 \<and>
      slaDeadline r \<le> createdAt r + 24 * 60 * 60 * 1000"
    by auto
  from created_report_deadline [of 6000 6000 6000 1 10 _ "Some ''spam''" None fresh_db
      submitted "Some 20"] b
  have d: "\<exists>r. reports (snd (report_user 6000 6000 6000 1 10 (Some 20) (Some ''spam'') None
        fresh_db)) = reports fresh_db @ [r] \<and> createdAt r = 6000 \<and>
      slaDeadline r = createdAt r + 24 * 60 * 60 * 1000"
    by auto
  from a b c d show ?thesis by blast
qed

section \<open>C4: the tiers and the emails of one monitor cycle\<close>

lemma alert_tier_calls:
  "fst (snd (alert_tier send t rs alerted)) =
     (if \<exists>r \<in> set rs. (t, report_id r) \<notin> set alerted
      then [\<lparr>email_tier = t,
             email_reports = filter (\<lambda>r. (t, report_id r) \<notin> set alerted) rs\<rparr>]
      else [])"
proof -
  have "(filter (\<lambda>r. (t, report_id r) \<notin> set alerted) rs \<noteq> []) =
      (\<exists>r \<in> set rs. (t, report_id r) \<notin> set alerted)"
    by (simp add: filter_empty_conv)
  then show ?thesis
    by (simp add: alert_tier_def Let_def)
qed

lemma fold_set_add_member:
  "(k \<in> set (fold (\<lambda>r. set_add (t, report_id r)) xs a)) =
     (k \<in> set a \<or> k \<in> (\<lambda>r. (t, report_id r)) ` set xs)"
  by (induction xs arbitrary: a) (auto simp: set_add_def)

lemma alert_tier_other_tier:
  assumes "t' \<noteq> t"
  shows "((t', i) \<in> set (snd (snd (snd (alert_tier send t rs alerted))))) =
           ((t', i) \<in> set alerted)"
  using assms by (auto simp: alert_tier_def Let_def fold_set_add_member)

text \<open>
  C4: one cycle at time now puts exactly the pending or under-review reports with
  now < slaDeadline \<le> now + 1h in the urgent tier and exactly those with
  now + 1h < slaDeadline \<le> now + 4h in the warning tier; a report whose deadline is
  beyond now + 4h is in neither; and for each tier sendEmail is called exactly once
  when some report of the tier has no key in the alerted set yet, and not at all
  otherwise.
\<close>

theorem sla_cycle_tiers_and_emails:
  "set (urgentReports (checkSLADeadlines send now rs alerted)) =
     {r \<in> set rs. (status r = PENDING \<or> status r = UNDER_REVIEW) \<and>
        now < slaDeadline r \<and> slaDeadline r \<le> now + 1 * 60 * 60 * 1000} \<and>
   set (warningReports (checkSLADeadlines send now rs alerted)) =
     {r \<in> set rs. (status r = PENDING \<or> status r = UNDER_REVIEW) \<and>
        now + 1 * 60 * 60 * 1000 < slaDeadline r \<and> slaDeadline r \<le> now + 4 * 60 * 60 * 1000} \<and>
   (\<forall>r \<in> set rs. now + 4 * 60 * 60 * 1000 < slaDeadline r \<longrightarrow>
      r \<notin> set (urgentReports (checkSLADeadlines send now rs alerted)) \<and>
      r \<notin> set (warningReports (checkSLADeadlines send now rs alerted))) \<and>
   length (filter (\<lambda>e. email_tier e = Urgent)
             (sendEmail_calls (checkSLADeadlines send now rs alerted))) =
     (if \<exists>r \<in> set (urgentReports (checkSLADeadlines send now rs alerted)).
           (Urgent, report_id r) \<notin> set alerted then 1 else 0) \<and>
   length (filter (\<lambda>e. email_tier e = Warning)
             (sendEmail_calls (checkSLADeadlines send now rs alerted))) =
     (if \<exists>r \<in> set (warningReports (checkSLADeadlines send now rs alerted)).
           (Warning, report_id r) \<notin> set alerted then 1 else 0)"
proof -
  let ?c = "checkSLADeadlines send now rs alerted"
  define atRisk where "atRisk = sort_key slaDeadline
      (filter (\<lambda>r. status r \<in> set [PENDING, UNDER_REVIEW] \<and>
                    slaDeadline r \<le> now + 4 * 60 * 60 * 1000 \<and> slaDeadline r > now) rs)"
  define U where "U = filter (\<lambda>r. slaDeadline r \<le> now + 1 * 60 * 60 * 1000) atRisk"
  define W where "W = filter (\<lambda>r. slaDeadline r > now + 1 * 60 * 60 * 1000) atRisk"
  define A1 where "A1 = snd (snd (snd (alert_tier send Urgent U alerted)))"
  have u: "urgentReports ?c = U"
    by (simp add: checkSLADeadlines_def U_def atRisk_def Let_def split: prod.splits)
  have w: "warningReports ?c = W"
    by (simp add: checkSLADeadlines_def W_def atRisk_def Let_def split: prod.splits)
  have calls: "sendEmail_calls ?c =
      fst (snd (alert_tier send Urgent U alerted)) @ fst (snd (alert_tier send Warning W A1))"
    by (simp add: checkSLADeadlines_def A1_def U_def W_def atRisk_def Let_def
        split: prod.splits)
  have keep: "((Warning, i) \<in> set A1) = ((Warning, i) \<in> set alerted)" for i
    unfolding A1_def by (rule alert_tier_other_tier) simp
  have tier1: "set (urgentReports ?c) =
      {r \<in> set rs. (status r = PENDING \<or> status r = UNDER_REVIEW) \<and>
        now < slaDeadline r \<and> slaDeadline r \<le> now + 1 * 60 * 60 * 1000}"
    unfolding u U_def atRisk_def by auto
  have tier2: "set (warningReports ?c) =
      {r \<in> set rs. (status r = PENDING \<or> status r = UNDER_REVIEW) \<and>
        now + 1 * 60 * 60 * 1000 < slaDeadline r \<and> slaDeadline r \<le> now + 4 * 60 * 60 * 1000}"
    unfolding w W_def atRisk_def by auto
  have neither: "\<forall>r \<in> set rs. now + 4 * 60 * 60 * 1000 < slaDeadline r \<longrightarrow>
      r \<notin> set (urgentReports ?c) \<and> r \<notin> set (warningReports ?c)"
    unfolding tier1 tier2 by auto
  have mail1: "length (filter (\<lambda>e. email_tier e = Urgent) (sendEmail_calls ?c)) =
      (if \<exists>r \<in> set (urgentReports ?c). (Urgent, report_id r) \<notin> set alerted then 1 else 0)"
    unfolding calls u by (simp add: alert_tier_calls)
  have mail2: "length (filter (\<lambda>e. email_tier e = Warning) (sendEmail_calls ?c)) =
      (if \<exists>r \<in> set (warningReports ?c). (Warning, report_id r) \<notin> set alerted then 1 else 0)"
    unfolding calls w by (simp add: alert_tier_calls keep)
  from tier1 tier2 neither mail1 mail2 show ?thesis by blast
qed

theorem sla_cycle_tiers_and_emails_witness:
  "map report_id (urgentReports (checkSLADeadlines (\<lambda>e. True) 1000000 three_reports [])) = [1] \<and>
   map report_id (warningReports (checkSLADeadlines (\<lambda>e. True) 1000000 three_reports [])) = [2] \<and>
   map (\<lambda>e. (email_tier e, map report_id (email_reports e)))
     (sendEmail_calls (checkSLADeadlines (\<lambda>e. True) 1000000 three_reports [])) =
     [(Urgent, [1]), (Warning, [2])] \<and>
   length (filter (\<lambda>e. email_tier e = Urgent)
             (sendEmail_calls (checkSLADeadlines (\<lambda>e. True) 1000000 three_reports []))) = 1 \<and>
   length (filter (\<lambda>e. email_tier e = Warning)
             (sendEmail_calls (checkSLADeadlines (\<lambda>e. True) 1000000 three_reports []))) = 1"
proof -
  let ?c = "checkSLADeadlines (\<lambda>e. True) 1000000 three_reports []"
  have u: "map report_id (urgentReports ?c) = [1]"
    by (simp add: checkSLADeadlines_def alert_tier_def three_reports_def report_due_def
        sample_report_def Let_def)
  have w: "map report_id (warningReports ?c) = [2]"
    by (simp add: checkSLADeadlines_def alert_tier_def three_reports_def report_due_def
        sample_report_def Let_def)
  have m: "map (\<lambda>e. (email_tier e, map report_id (email_reports e))) (sendEmail_calls ?c) =
      [(Urgent, [1]), (Warning, [2])]"
    by (simp add: checkSLADeadlines_def alert_tier_def three_reports_def report_due_def
        sample_report_def set_add_def Let_def)
  from u have ue: "\<exists>r \<in> set (urgentReports ?c). (Urgent, report_id r) \<notin> set []"
    by (cases "urgentReports ?c") auto
  from w have we: "\<exists>r \<in> set (warningReports ?c). (Warning, report_id r) \<notin> set []"
    by (cases "warningReports ?c") auto
  from sla_cycle_tiers_and_emails [of "\<lambda>e. True" 1000000 three_reports "[]"] ue we
  have "length (filter (\<lambda>e. email_tier e = Urgent) (sendEmail_calls ?c)) = 1 \<and>
      length (filter (\<lambda>e. email_tier e = Warning) (sendEmail_calls ?c)) = 1"
    by presburger
  with u w m show ?thesis by blast
qed

section \<open>C5: at most one alert per report and tier while the report is open\<close>

lemma alert_tier_call:
  assumes "e \<in> set (fst (snd (alert_tier send t rs alerted)))"
  shows "email_tier e = t \<and>
         email_reports e = filter (\<lambda>r. (t, report_id r) \<notin> set alerted) rs"
  using assms by (auto simp: alert_tier_def Let_def split: if_splits)

lemma alert_tier_delivered:
  assumes "e \<in> set (fst (snd (snd (alert_tier send t rs alerted))))"
  shows "email_tier e = t \<and>
         (\<forall>r \<in> set (email_reports e).
            (t, report_id r) \<in> set (snd (snd (snd (alert_tier send t rs alerted)))))"
  using assms by (auto simp: alert_tier_def Let_def fold_set_add_member split: if_splits)

lemma alert_tier_keeps:
  assumes "k \<in> set alerted"
  shows "k \<in> set (snd (snd (snd (alert_tier send t rs alerted))))"
  using assms by (auto simp: alert_tier_def Let_def fold_set_add_member)

lemma markBreachedReports_terminal_ids:
  "report_id ` {r \<in> set (markBreachedReports now rs). status r \<in> set [RESOLVED, DISMISSED]} =
   report_id ` {r \<in> set rs. status r \<in> set [RESOLVED, DISMISSED]}"
  by (auto simp: markBreachedReports_def updateMany_def image_iff)

lemma cycle_parts:
  "\<exists>U W. sendEmail_calls (checkSLADeadlines send now rs alerted) =
           fst (snd (alert_tier send Urgent U alerted)) @
           fst (snd (alert_tier send Warning W
                  (snd (snd (snd (alert_tier send Urgent U alerted)))))) \<and>
         delivered (checkSLADeadlines send now rs alerted) =
           fst (snd (snd (alert_tier send Urgent U alerted))) @
           fst (snd (snd (alert_tier send Warning W
                  (snd (snd (snd (alert_tier send Urgent U alerted))))))) \<and>
         alertedReports (checkSLADeadlines send now rs alerted) =
           filter (\<lambda>key. snd key \<notin> report_id `
                     {r \<in> set rs. status r \<in> set [RESOLVED, DISMISSED]})
             (snd (snd (snd (alert_tier send Warning W
                  (snd (snd (snd (alert_tier send Urgent U alerted))))))))"
proof -
  define atRisk where "atRisk = sort_key slaDeadline
      (filter (\<lambda>r. status r \<in> set [PENDING, UNDER_REVIEW] \<and>
                    slaDeadline r \<le> now + 4 * 60 * 60 * 1000 \<and> slaDeadline r > now) rs)"
  define U where "U = filter (\<lambda>r. slaDeadline r \<le> now + 1 * 60 * 60 * 1000) atRisk"
  define W where "W = filter (\<lambda>r. slaDeadline r > now + 1 * 60 * 60 * 1000) atRisk"
  define A1 where "A1 = snd (snd (snd (alert_tier send Urgent U alerted)))"
  define A2 where "A2 = snd (snd (snd (alert_tier send Warning W A1)))"
  let ?c = "checkSLADeadlines send now rs alerted"
  have calls: "sendEmail_calls ?c =
      fst (snd (alert_tier send Urgent U alerted)) @ fst (snd (alert_tier send Warning W A1))"
    by (simp add: checkSLADeadlines_def A1_def U_def W_def atRisk_def Let_def
        split: prod.splits)
  have dels: "delivered ?c =
      fst (snd (snd (alert_tier send Urgent U alerted))) @
      fst (snd (snd (alert_tier send Warning W A1)))"
    by (simp add: checkSLADeadlines_def A1_def U_def W_def atRisk_def Let_def
        split: prod.splits)
  have ids: "set (map report_id (filter (\<lambda>r. status r \<in> set [RESOLVED, DISMISSED])
                (markBreachedReports now rs))) =
      report_id ` {r \<in> set rs. status r \<in> set [RESOLVED, DISMISSED]}"
    using markBreachedReports_terminal_ids [of now rs] by simp
  have "alertedReports ?c =
      filter (\<lambda>key. snd key \<notin> set (map report_id
                (filter (\<lambda>r. status r \<in> set [RESOLVED, DISMISSED])
                   (markBreachedReports now rs)))) A2"
    by (simp add: checkSLADeadlines_def A2_def A1_def U_def W_def atRisk_def Let_def
        split: prod.splits)
  then have keys: "alertedReports ?c =
      filter (\<lambda>key. snd key \<notin> report_id `
                {r \<in> set rs. status r \<in> set [RESOLVED, DISMISSED]}) A2"
    unfolding ids .
  from calls dels keys show ?thesis
    unfolding A2_def A1_def by blast
qed

lemma cycle_excludes_alerted:
  assumes key: "(t, rid) \<in> set alerted"
    and call: "e \<in> set (sendEmail_calls (checkSLADeadlines send now rs alerted))"
    and tier: "email_tier e = t"
  shows "rid \<notin> report_id ` set (email_reports e)"
proof -
  from cycle_parts [of send now rs alerted] obtain U W where
    calls: "sendEmail_calls (checkSLADeadlines send now rs alerted) =
           fst (snd (alert_tier send Urgent U alerted)) @
           fst (snd (alert_tier send Warning W
                  (snd (snd (snd (alert_tier send Urgent U alerted))))))"
    by blast
  from call [unfolded calls] consider
    (urgent) "e \<in> set (fst (snd (alert_tier send Urgent U alerted)))"
    | (warning) "e \<in> set (fst (snd (alert_tier send Warning W
          (snd (snd (snd (alert_tier send Urgent U alerted)))))))"
    by auto
  then show ?thesis
  proof cases
    case urgent
    from alert_tier_call [OF urgent] tier key show ?thesis by auto
  next
    case warning
    have "(t, rid) \<in> set (snd (snd (snd (alert_tier send Urgent U alerted))))"
      using key by (rule alert_tier_keeps)
    with alert_tier_call [OF warning] tier show ?thesis by auto
  qed
qed

lemma cycle_keeps_open_key:
  assumes key: "(t, rid) \<in> set alerted"
    and opn: "\<forall>r \<in> set rs. report_id r = rid \<longrightarrow> status r \<noteq> RESOLVED \<and> status r \<noteq> DISMISSED"
  shows "(t, rid) \<in> set (alertedReports (checkSLADeadlines send now rs alerted))"
proof -
  from cycle_parts [of send now rs alerted] obtain U W where
    keys: "alertedReports (checkSLADeadlines send now rs alerted) =
           filter (\<lambda>key. snd key \<notin> report_id `
                     {r \<in> set rs. status r \<in> set [RESOLVED, DISMISSED]})
             (snd (snd (snd (alert_tier send Warning W
                  (snd (snd (snd (alert_tier send Urgent U alerted))))))))"
    by blast
  from opn have "rid \<notin> report_id ` {r \<in> set rs. status r \<in> set [RESOLVED, DISMISSED]}"
    by auto
  moreover from key have "(t, rid) \<in> set (snd (snd (snd (alert_tier send Warning W
      (snd (snd (snd (alert_tier send Urgent U alerted))))))))"
    by (intro alert_tier_keeps)
  ultimately show ?thesis
    unfolding keys by simp
qed

lemma cycle_marks_delivered:
  assumes del: "e \<in> set (delivered (checkSLADeadlines send now rs alerted))"
    and rid: "rid \<in> report_id ` set (email_reports e)"
    and opn: "\<forall>r \<in> set rs. report_id r = rid \<longrightarrow> status r \<noteq> RESOLVED \<and> status r \<noteq> DISMISSED"
  shows "(email_tier e, rid) \<in> set (alertedReports (checkSLADeadlines send now rs alerted))"
proof -
  from cycle_parts [of send now rs alerted] obtain U W where
    dels: "delivered (checkSLADeadlines send now rs alerted) =
           fst (snd (snd (alert_tier send Urgent U alerted))) @
           fst (snd (snd (alert_tier send Warning W
                  (snd (snd (snd (alert_tier send Urgent U alerted)))))))"
    and keys: "alertedReports (checkSLADeadlines send now rs alerted) =
           filter (\<lambda>key. snd key \<notin> report_id `
                     {r \<in> set rs. status r \<in> set [RESOLVED, DISMISSED]})
             (snd (snd (snd (alert_tier send Warning W
                  (snd (snd (snd (alert_tier send Urgent U alerted))))))))"
    by blast
  from opn have nores: "rid \<notin> report_id ` {r \<in> set rs. status r \<in> set [RESOLVED, DISMISSED]}"
    by auto
  from del [unfolded dels] consider
    (urgent) "e \<in> set (fst (snd (snd (alert_tier send Urgent U alerted))))"
    | (warning) "e \<in> set (fst (snd (snd (alert_tier send Warning W
          (snd (snd (snd (alert_tier send Urgent U alerted))))))))"
    by auto
  then have "(email_tier e, rid) \<in> set (snd (snd (snd (alert_tier send Warning W
      (snd (snd (snd (alert_tier send Urgent U alerted))))))))"
  proof cases
    case urgent
    from alert_tier_delivered [OF urgent] rid
    have "(email_tier e, rid) \<in> set (snd (snd (snd (alert_tier send Urgent U alerted))))"
      by auto
    then show ?thesis by (rule alert_tier_keeps)
  next
    case warning
    from alert_tier_delivered [OF warning] rid show ?thesis by auto
  qed
  with nores show ?thesis
    unfolding keys by simp
qed

lemma cycle_drops_terminal_key:
  assumes "r \<in> set rs" and "status r = RESOLVED \<or> status r = DISMISSED"
  shows "(t, report_id r) \<notin> set (alertedReports (checkSLADeadlines send now rs alerted))"
proof -
  from cycle_parts [of send now rs alerted] obtain U W where
    keys: "alertedReports (checkSLADeadlines send now rs alerted) =
           filter (\<lambda>key. snd key \<notin> report_id `
                     {r \<in> set rs. status r \<in> set [RESOLVED, DISMISSED]})
             (snd (snd (snd (alert_tier send Warning W
                  (snd (snd (snd (alert_tier send Urgent U alerted))))))))"
    by blast
  from assms show ?thesis
    unfolding keys by auto
qed

lemma alerted_before_Suc:
  assumes "k < length ins"
  shows "alerted_before alerted0 ins (Suc k) =
           alertedReports (cycle_at alerted0 ins k)"
  using assms
  by (simp add: alerted_before_def cycle_at_def monitor_step_def take_Suc_conv_app_nth)

text \<open>
  C5: in any run of monitor cycles (whatever the clock, the report collection and the
  mail outcome of each cycle), once an alert email of a tier that lists a report has
  gone out in cycle i, no sendEmail call of that tier in a later cycle j lists the
  report, as long as the report was not resolved or dismissed at any cycle from i to
  j - 1. And a cycle that sees a report resolved or dismissed leaves no key of that
  report in the alerted set, so the report can be alerted again afterwards.
\<close>

theorem alert_once_per_tier_while_open:
  assumes order: "i < j" "j < length ins"
    and sent: "e \<in> set (delivered (cycle_at alerted0 ins i))"
    and listed: "rid \<in> report_id ` set (email_reports e)"
    and opn: "\<forall>k. i \<le> k \<and> k < j \<longrightarrow>
                (\<forall>r \<in> set (cycle_reports (ins ! k)). report_id r = rid \<longrightarrow>
                   status r \<noteq> RESOLVED \<and> status r \<noteq> DISMISSED)"
  shows "(\<forall>e' \<in> set (sendEmail_calls (cycle_at alerted0 ins j)).
            email_tier e' = email_tier e \<longrightarrow> rid \<notin> report_id ` set (email_reports e')) \<and>
         (\<forall>k < length ins. \<forall>r \<in> set (cycle_reports (ins ! k)).
            status r = RESOLVED \<or> status r = DISMISSED \<longrightarrow>
            (\<forall>t. (t, report_id r) \<notin> set (alerted_before alerted0 ins (Suc k))))"
proof -
  have marked: "(email_tier e, rid) \<in> set (alerted_before alerted0 ins (Suc i))"
  proof -
    from order have "i < length ins" by simp
    moreover from opn [THEN spec, of i] order
    have "\<forall>r \<in> set (cycle_reports (ins ! i)). report_id r = rid \<longrightarrow>
        status r \<noteq> RESOLVED \<and> status r \<noteq> DISMISSED" by simp
    ultimately show ?thesis
      using sent listed cycle_marks_delivered
      by (simp add: alerted_before_Suc) (simp add: cycle_at_def)
  qed
  have kept: "Suc i \<le> k \<Longrightarrow> k \<le> j \<Longrightarrow> (email_tier e, rid) \<in> set (alerted_before alerted0 ins k)"
    for k
  proof (induction k)
    case 0
    then show ?case by simp
  next
    case (Suc k)
    show ?case
    proof (cases "k = i")
      case True
      with marked show ?thesis by simp
    next
      case False
      with Suc.prems have range: "Suc i \<le> k" "k < j" by simp_all
      with Suc.IH have before: "(email_tier e, rid) \<in> set (alerted_before alerted0 ins k)"
        by simp
      from range opn [THEN spec, of k]
      have "\<forall>r \<in> set (cycle_reports (ins ! k)). report_id r = rid \<longrightarrow>
          status r \<noteq> RESOLVED \<and> status r \<noteq> DISMISSED" by simp
      with before have "(email_tier e, rid) \<in> set (alertedReports (cycle_at alerted0 ins k))"
        unfolding cycle_at_def by (rule cycle_keeps_open_key)
      moreover from range order have "k < length ins" by simp
      ultimately show ?thesis by (simp add: alerted_before_Suc)
    qed
  qed
  from order kept [of j] have atj: "(email_tier e, rid) \<in> set (alerted_before alerted0 ins j)"
    by simp
  have first: "\<forall>e' \<in> set (sendEmail_calls (cycle_at alerted0 ins j)).
      email_tier e' = email_tier e \<longrightarrow> rid \<notin> report_id ` set (email_reports e')"
    using cycle_excludes_alerted [OF atj] unfolding cycle_at_def by blast
  have second: "\<forall>k < length ins. \<forall>r \<in> set (cycle_reports (ins ! k)).
      status r = RESOLVED \<or> status r = DISMISSED \<longrightarrow>
      (\<forall>t. (t, report_id r) \<notin> set (alerted_before alerted0 ins (Suc k)))"
    using cycle_drops_terminal_key by (simp add: alerted_before_Suc cycle_at_def)
  from first second show ?thesis by blast
qed

theorem alert_once_per_tier_while_open_witness:
  "map (\<lambda>e. (email_tier e, map report_id (email_reports e)))
     (delivered (cycle_at [] two_cycles 0)) = [(Urgent, [1]), (Warning, [2])] \<and>
   alerted_before [] two_cycles 1 = [(Urgent, 1), (Warning, 2)] \<and>
   map (\<lambda>e. (email_tier e, map report_id (email_reports e)))
     (sendEmail_calls (cycle_at [] two_cycles 1)) = [(Urgent, [4])] \<and>
   \<not> (\<exists>e' \<in> set (sendEmail_calls (cycle_at [] two_cycles 1)).
        email_tier e' = Urgent \<and> 1 \<in> report_id ` set (email_reports e'))"
proof -
  define e where "e = \<lparr>email_tier = Urgent, email_reports = [report_due 1 2800000]\<rparr>"
  have d0: "delivered (cycle_at [] two_cycles 0) =
      [e, \<lparr>email_tier = Warning, email_reports = [report_due 2 8200000]\<rparr>]"
    by (simp add: e_def cycle_at_def alerted_before_def two_cycles_def three_reports_def
        checkSLADeadlines_def alert_tier_def set_add_def report_due_def sample_report_def
        Let_def)
  have a1: "alerted_before [] two_cycles 1 = [(Urgent, 1), (Warning, 2)]"
    by (auto simp: alerted_before_def monitor_step_def two_cycles_def three_reports_def
        checkSLADeadlines_def alert_tier_def markBreachedReports_def updateMany_def
        set_add_def report_due_def sample_report_def Let_def)
  have c1: "map (\<lambda>e. (email_tier e, map report_id (email_reports e)))
      (sendEmail_calls (cycle_at [] two_cycles 1)) = [(Urgent, [4])]"
    unfolding cycle_at_def a1
    by (simp add: two_cycles_def three_reports_def checkSLADeadlines_def alert_tier_def
        set_add_def report_due_def sample_report_def Let_def)
  have order: "(0::nat) < 1" "1 < length two_cycles"
    by (simp_all add: two_cycles_def)
  have sent: "e \<in> set (delivered (cycle_at [] two_cycles 0))"
    unfolding d0 by simp
  have listed: "1 \<in> report_id ` set (email_reports e)"
    by (simp add: e_def report_due_def)
  have opn: "\<forall>k. 0 \<le> k \<and> k < 1 \<longrightarrow>
      (\<forall>r \<in> set (cycle_reports (two_cycles ! k)). report_id r = 1 \<longrightarrow>
         status r \<noteq> RESOLVED \<and> status r \<noteq> DISMISSED)"
    by (simp add: two_cycles_def three_reports_def report_due_def sample_report_def)
  have tier: "email_tier e = Urgent"
    by (simp add: e_def)
  from alert_once_per_tier_while_open [OF order sent listed opn] tier
  have "\<not> (\<exists>e' \<in> set (sendEmail_calls (cycle_at [] two_cycles 1)).
        email_tier e' = Urgent \<and> 1 \<in> report_id ` set (email_reports e'))"
    by auto
  moreover from d0 have "map (\<lambda>e. (email_tier e, map report_id (email_reports e)))
      (delivered (cycle_at [] two_cycles 0)) = [(Urgent, [1]), (Warning, [2])]"
    by (simp add: e_def report_due_def)
  ultimately show ?thesis
    using a1 c1 by blast
qed

section \<open>C8: blocked authors in the image listing\<close>

lemma delete_first_unique:
  assumes "distinct (map f xs)"
  shows "\<forall>x \<in> set (delete_first (\<lambda>x. f x = k) xs). f x \<noteq> k"
  using assms
proof (induction xs)
  case Nil
  then show ?case by simp
next
  case (Cons x xs)
  show ?case
  proof (cases "f x = k")
    case True
    with Cons.prems have "k \<notin> set (map f xs)" by simp
    then have "\<forall>y \<in> set xs. f y \<noteq> k" by auto
    with True show ?thesis by simp
  next
    case False
    with Cons show ?thesis by simp
  qed
qed

lemma page_covers:
  assumes "k < length xs" and "0 < l"
  shows "xs ! k \<in> set (take l (drop ((k div l) * l) xs))"
proof -
  define d where "d = (k div l) * l"
  define m where "m = k mod l"
  have split: "d + m = k" by (simp add: d_def m_def)
  have small: "m < l" using assms(2) by (simp add: m_def)
  from split assms(1) have room: "m < length xs - d" by arith
  with small have "m < length (take l (drop d xs))" by simp
  moreover have "take l (drop d xs) ! m = xs ! k"
    using small room split by simp
  ultimately have "xs ! k \<in> set (take l (drop d xs))"
    by (metis nth_mem)
  then show ?thesis by (simp add: d_def)
qed

lemma listing_images_subset:
  "set (listing_images (all_images cats viewer categoryp page limit s)) \<subseteq>
     set (all_images_query viewer categoryp s)"
proof -
  have a: "set (take l (drop k xs)) \<subseteq> set xs" for l k and xs :: "image list"
    by (meson set_take_subset set_drop_subset subset_trans)
  have b: "set (drop k xs) \<subseteq> set xs" for k and xs :: "image list"
    by (rule set_drop_subset)
  show ?thesis
    using a b by (auto simp: all_images_def listing_images_def Let_def)
qed

lemma listing_page:
  assumes "falsy categoryp \<or> js_or categoryp [] \<in> set cats" and "1 \<le> p"
  shows "set (listing_images (all_images cats viewer categoryp p limit s)) =
           set (if limit = 0 then drop ((p - 1) * limit) (all_images_query viewer categoryp s)
                else take limit (drop ((p - 1) * limit) (all_images_query viewer categoryp s)))"
  using assms by (auto simp: all_images_def listing_images_def Let_def)

text \<open>
  C8: while viewer A has a block edge to author B, no page of the image listing for the
  authenticated viewer A holds an image of B. After A unblocks B (with at most one
  edge per ordered pair, as the unique index of the block collection enforces), the
  unblock answers 200 and every image of B that passes the request's category filter
  matches the listing query of A again and appears on one of its pages.
\<close>

theorem block_excludes_and_unblock_restores:
  assumes edge: "\<exists>b \<in> set (blocks s). blockerUserId b = A \<and> blockedUserId b = B"
  shows "(\<forall>img \<in> set (listing_images (all_images cats (Some A) categoryp page limit s)).
            image_userId img \<noteq> B) \<and>
         (distinct (map (\<lambda>b. (blockerUserId b, blockedUserId b)) (blocks s)) \<longrightarrow>
            fst (unblock_user A (Some B) s) = Success 200 ''User has been unblocked'' \<and>
            (\<forall>img \<in> set (images s).
               image_userId img = B \<and>
               (falsy categoryp \<or>
                  (category img = js_or categoryp [] \<and> js_or categoryp [] \<in> set cats)) \<longrightarrow>
               img \<in> set (all_images_query (Some A) categoryp (snd (unblock_user A (Some B) s))) \<and>
               (\<exists>p \<ge> 1. img \<in> set (listing_images
                   (all_images cats (Some A) categoryp p limit
                      (snd (unblock_user A (Some B) s)))))))"
proof -
  from edge have blocked: "B \<in> set (getBlockedUserIds A (blocks s))"
    by (auto simp: getBlockedUserIds_def)
  then have nonempty: "length (getBlockedUserIds A (blocks s)) > 0"
    by (cases "getBlockedUserIds A (blocks s)") auto
  have query: "\<forall>img \<in> set (all_images_query (Some A) categoryp s). image_userId img \<noteq> B"
    using blocked nonempty by (auto simp: all_images_query_def Let_def)
  have pages: "set (listing_images (all_images cats (Some A) categoryp page limit s)) \<subseteq>
      set (all_images_query (Some A) categoryp s)"
    by (rule listing_images_subset)
  from query pages have first: "\<forall>img \<in> set (listing_images
      (all_images cats (Some A) categoryp page limit s)). image_userId img \<noteq> B"
    by blast
  have second: "fst (unblock_user A (Some B) s) = Success 200 ''User has been unblocked'' \<and>
      (\<forall>img \<in> set (images s).
         image_userId img = B \<and>
         (falsy categoryp \<or>
            (category img = js_or categoryp [] \<and> js_or categoryp [] \<in> set cats)) \<longrightarrow>
         img \<in> set (all_images_query (Some A) categoryp (snd (unblock_user A (Some B) s))) \<and>
         (\<exists>p \<ge> 1. img \<in> set (listing_images
             (all_images cats (Some A) categoryp p limit (snd (unblock_user A (Some B) s))))))"
    if uniq: "distinct (map (\<lambda>b. (blockerUserId b, blockedUserId b)) (blocks s))"
  proof -
    let ?s' = "snd (unblock_user A (Some B) s)"
    from edge obtain b where
      found: "find (\<lambda>b. blockerUserId b = A \<and> blockedUserId b = B) (blocks s) = Some b"
      by (cases "find (\<lambda>b. blockerUserId b = A \<and> blockedUserId b = B) (blocks s)")
        (auto simp: find_None_iff)
    then have ok: "fst (unblock_user A (Some B) s) = Success 200 ''User has been unblocked''"
      by (simp add: unblock_user_def)
    have blocks': "blocks ?s' =
        delete_first (\<lambda>b. blockerUserId b = A \<and> blockedUserId b = B) (blocks s)"
      using found by (simp add: unblock_user_def)
    have images': "images ?s' = images s"
      using found by (simp add: unblock_user_def)
    from delete_first_unique [OF uniq, of "(A, B)"]
    have "\<forall>b \<in> set (delete_first (\<lambda>b. blockerUserId b = A \<and> blockedUserId b = B) (blocks s)).
        \<not> (blockerUserId b = A \<and> blockedUserId b = B)"
      by simp
    then have gone: "B \<notin> set (getBlockedUserIds A (blocks ?s'))"
      unfolding blocks' by (auto simp: getBlockedUserIds_def)
    have inq: "img \<in> set (all_images_query (Some A) categoryp ?s')"
      if "img \<in> set (images s)" "image_userId img = B"
        "falsy categoryp \<or> category img = js_or categoryp []" for img
      using that gone images' by (auto simp: all_images_query_def Let_def)
    have onpage: "\<exists>p \<ge> 1. img \<in> set (listing_images
        (all_images cats (Some A) categoryp p limit ?s'))"
      if m: "img \<in> set (all_images_query (Some A) categoryp ?s')"
        and valid: "falsy categoryp \<or> js_or categoryp [] \<in> set cats" for img
    proof -
      let ?xs = "all_images_query (Some A) categoryp ?s'"
      from m obtain k where k: "k < length ?xs" "?xs ! k = img"
        by (auto simp: in_set_conv_nth)
      show ?thesis
      proof (cases "limit = 0")
        case True
        with m have "img \<in> set (listing_images
            (all_images cats (Some A) categoryp 1 limit ?s'))"
          by (simp add: listing_page [OF valid])
        then show ?thesis by blast
      next
        case False
        let ?p = "k div limit + 1"
        from False k page_covers [of k ?xs limit]
        have "img \<in> set (take limit (drop ((?p - 1) * limit) ?xs))" by simp
        with False have "img \<in> set (listing_images
            (all_images cats (Some A) categoryp ?p limit ?s'))"
          by (simp add: listing_page [OF valid])
        then show ?thesis by (intro exI [of _ ?p]) simp
      qed
    qed
    from ok inq onpage show ?thesis by blast
  qed
  from first second show ?thesis by blast
qed

theorem block_excludes_and_unblock_restores_witness:
  "isBlocked 10 20 (blocks blocked_db) \<and>
   all_images [''paintings''] (Some 10) None 1 50 blocked_db = Listing [] 0 \<and>
   fst (unblock_user 10 (Some 20) blocked_db) = Success 200 ''User has been unblocked'' \<and>
   all_images [''paintings''] (Some 10) None 1 50 (snd (unblock_user 10 (Some 20) blocked_db)) =
     Listing [sample_image] 1 \<and>
   sample_image \<in> set (all_images_query (Some 10) None (snd (unblock_user 10 (Some 20) blocked_db)))"
proof -
  have edge: "\<exists>b \<in> set (blocks blocked_db). blockerUserId b = 10 \<and> blockedUserId b = 20"
    by (simp add: blocked_db_def)
  have uniq: "distinct (map (\<lambda>b. (blockerUserId b, blockedUserId b)) (blocks blocked_db))"
    by (simp add: blocked_db_def)
  have img: "sample_image \<in> set (images blocked_db)" "image_userId sample_image = 20"
    "falsy None"
    by (simp_all add: blocked_db_def sample_image_def falsy_def)
  have a: "isBlocked 10 20 (blocks blocked_db)"
    by (simp add: isBlocked_def blocked_db_def)
  have b: "all_images [''paintings''] (Some 10) None 1 50 blocked_db = Listing [] 0"
    by (simp add: all_images_def all_images_query_def getBlockedUserIds_def falsy_def
        blocked_db_def sample_image_def Let_def)
  have c: "all_images [''paintings''] (Some 10) None 1 50
      (snd (unblock_user 10 (Some 20) blocked_db)) = Listing [sample_image] 1"
    by (simp add: all_images_def all_images_query_def getBlockedUserIds_def falsy_def
        unblock_user_def blocked_db_def sample_image_def Let_def)
  from block_excludes_and_unblock_restores [OF edge, of "[''paintings'']" None 1 50] uniq img
  have "fst (unblock_user 10 (Some 20) blocked_db) = Success 200 ''User has been unblocked'' \<and>
      sample_image \<in> set (all_images_query (Some 10) None
        (snd (unblock_user 10 (Some 20) blocked_db)))"
    by blast
  with a b c show ?thesis by blast
qed

section \<open>C9: the risk level of analyzeContent\<close>

text \<open>
  C9: for every input, the risk level is low exactly when the blocked-word, spam and
  scam checks all report clean, high exactly when at least two of the three checks
  report an issue, and medium exactly when one of them does.
\<close>

theorem analyzeContent_riskLevel:
  "(riskLevel (analyzeContent text) = ''low'' \<longleftrightarrow>
      isClean (checkForBlockedWords text) \<and> isClean (checkForSpam text) \<and>
      isClean (checkForScam text)) \<and>
   (riskLevel (analyzeContent text) = ''high'' \<longleftrightarrow>
      2 \<le> length (filter Not [isClean (checkForBlockedWords text),
                               isClean (checkForSpam text), isClean (checkForScam text)])) \<and>
   (riskLevel (analyzeContent text) = ''medium'' \<longleftrightarrow>
      length (filter Not [isClean (checkForBlockedWords text),
                          isClean (checkForSpam text), isClean (checkForScam text)]) = 1) \<and>
   length (issues (analyzeContent text)) =
     length (filter Not [isClean (checkForBlockedWords text),
                         isClean (checkForSpam text), isClean (checkForScam text)])"
proof -
  define b where "b = isClean (checkForBlockedWords text)"
  define sp where "sp = isClean (checkForSpam text)"
  define sc where "sc = isClean (checkForScam text)"
  have expand: "riskLevel (analyzeContent text) =
      (if b \<and> sp \<and> sc then ''low''
       else if 2 \<le> length (filter Not [b, sp, sc]) then ''high'' else ''medium'')"
    by (cases b; cases sp; cases sc) (simp_all add: analyzeContent_def b_def sp_def sc_def Let_def)
  have count: "length (issues (analyzeContent text)) = length (filter Not [b, sp, sc])"
    by (cases b; cases sp; cases sc) (simp_all add: analyzeContent_def b_def sp_def sc_def Let_def)
  have "(riskLevel (analyzeContent text) = ''low'' \<longleftrightarrow> b \<and> sp \<and> sc) \<and>
      (riskLevel (analyzeContent text) = ''high'' \<longleftrightarrow> 2 \<le> length (filter Not [b, sp, sc])) \<and>
      (riskLevel (analyzeContent text) = ''medium'' \<longleftrightarrow> length (filter Not [b, sp, sc]) = 1)"
    unfolding expand by (cases b; cases sp; cases sc) simp_all
  with count show ?thesis
    unfolding b_def sp_def sc_def by blast
qed

theorem analyzeContent_riskLevel_witness:
  "riskLevel (analyzeContent (Some ''Buy  NOW, send me money'')) = ''high'' \<and>
   \<not> isClean (checkForSpam (Some ''Buy  NOW, send me money'')) \<and>
   \<not> isClean (checkForScam (Some ''Buy  NOW, send me money'')) \<and>
   isClean (checkForBlockedWords (Some ''Buy  NOW, send me money'')) \<and>
   riskLevel (analyzeContent (Some ''Earn $500 a day'')) = ''medium'' \<and>
   riskLevel (analyzeContent (Some ''A quiet landscape'')) = ''low'' \<and>
   riskLevel (analyzeContent None) = ''low''"
proof -
  have s1: "\<not> isClean (checkForSpam (Some ''Buy  NOW, send me money''))"
    by code_simp
  have s2: "\<not> isClean (checkForScam (Some ''Buy  NOW, send me money''))"
    by code_simp
  have s3: "isClean (checkForBlockedWords (Some ''Buy  NOW, send me money''))"
    by code_simp
  have m1: "\<not> isClean (checkForSpam (Some ''Earn $500 a day''))"
    by code_simp
  have m2: "isClean (checkForScam (Some ''Earn $500 a day''))"
    by code_simp
  have m3: "isClean (checkForBlockedWords (Some ''Earn $500 a day''))"
    by code_simp
  have l1: "isClean (checkForSpam (Some ''A quiet landscape''))"
    by code_simp
  have l2: "isClean (checkForScam (Some ''A quiet landscape''))"
    by code_simp
  have l3: "isClean (checkForBlockedWords (Some ''A quiet landscape''))"
    by code_simp
  have n: "isClean (checkForSpam None) \<and> isClean (checkForScam None) \<and>
      isClean (checkForBlockedWords None)"
    by code_simp
  from analyzeContent_riskLevel [of "Some ''Buy  NOW, send me money''"] s1 s2 s3
  have h: "riskLevel (analyzeContent (Some ''Buy  NOW, send me money'')) = ''high''" by simp
  from analyzeContent_riskLevel [of "Some ''Earn $500 a day''"] m1 m2 m3
  have m: "riskLevel (analyzeContent (Some ''Earn $500 a day'')) = ''medium''" by simp
  from analyzeContent_riskLevel [of "Some ''A quiet landscape''"] l1 l2 l3
  have l: "riskLevel (analyzeContent (Some ''A quiet landscape'')) = ''low''" by simp
  from analyzeContent_riskLevel [of None] n
  have l0: "riskLevel (analyzeContent None) = ''low''" by simp
  from h s1 s2 s3 m l l0 show ?thesis by blast
qed

section \<open>C3: the breach sweep is idempotent and slaBreached is monotonic\<close>

lemma findById_update_first_other:
  assumes "\<And>x. idf (f x) = idf x"
  shows "findById idf i (update_first (\<lambda>x. idf x = j) f xs) =
           (if i = j then map_option f (findById idf i xs) else findById idf i xs)"
  using assms by (induction xs) (auto simp: findById_def)

lemma findById_append:
  "findById idf i xs = Some x \<Longrightarrow> findById idf i (xs @ ys) = Some x"
  by (induction xs) (auto simp: findById_def split: if_splits)

lemma findById_markBreachedReports:
  "findById report_id i (markBreachedReports now rs) =
     map_option
       (\<lambda>r. if status r \<in> set [PENDING, UNDER_REVIEW] \<and> slaDeadline r < now \<and>
                slaBreached r = False
             then r\<lparr>slaBreached := True, updatedAt := now\<rparr> else r)
       (findById report_id i rs)"
  by (induction rs) (auto simp: findById_def markBreachedReports_def updateMany_def)

lemma reports_after_cycle:
  "reports_after (checkSLADeadlines send now rs alerted) = markBreachedReports now rs"
  by (simp add: checkSLADeadlines_def Let_def split: prod.splits)

lemma patch_status_breach:
  assumes "findById report_id i (reports s) = Some r"
  shows "\<exists>r'. findById report_id i (reports (snd (patch_status now admin idp statusp s))) = Some r' \<and>
              slaBreached r' = slaBreached r"
  using assms
  by (auto simp: patch_status_def findByIdAndUpdate_def findById_update_first_other Let_def
      split: option.splits)

lemma warn_user_breach:
  assumes "findById report_id i (reports s) = Some r"
  shows "\<exists>r'. findById report_id i (reports (snd (warn_user now admin idp msg s))) = Some r' \<and>
              slaBreached r' = slaBreached r"
  using assms
  by (auto simp: warn_user_def findByIdAndUpdate_def findById_update_first_other Let_def
      split: option.splits)

lemma suspend_user_breach:
  assumes "findById report_id i (reports s) = Some r"
  shows "\<exists>r'. findById report_id i
                 (reports (snd (suspend_user str localeDate now admin idp days msg s))) = Some r' \<and>
              slaBreached r' = slaBreached r"
  using assms
  by (auto simp: suspend_user_def findByIdAndUpdate_def findById_update_first_other Let_def
      split: option.splits)

lemma ban_user_breach:
  assumes "findById report_id i (reports s) = Some r"
  shows "\<exists>r'. findById report_id i (reports (snd (ban_user now admin idp why s))) = Some r' \<and>
              slaBreached r' = slaBreached r"
  using assms
  by (auto simp: ban_user_def findByIdAndUpdate_def findById_update_first_other Let_def
      split: option.splits)

lemma remove_content_breach:
  assumes "findById report_id i (reports s) = Some r"
  shows "\<exists>r'. findById report_id i
                 (reports (snd (remove_content now admin idp notify why s))) = Some r' \<and>
              slaBreached r' = slaBreached r"
  using assms
  by (auto simp: remove_content_def findByIdAndUpdate_def findById_update_first_other Let_def
      split: option.splits)

lemma dismiss_breach:
  assumes "findById report_id i (reports s) = Some r"
  shows "\<exists>r'. findById report_id i (reports (snd (dismiss now admin idp why s))) = Some r' \<and>
              slaBreached r' = slaBreached r"
  using assms
  by (auto simp: dismiss_def findByIdAndUpdate_def findById_update_first_other Let_def
      split: option.splits)

lemma report_image_breach:
  assumes "findById report_id i (reports s) = Some r"
  shows "findById report_id i
           (reports (snd (report_image now built saved newId reporter imageIdp reasonp descp s))) = Some r"
  using assms
  by (auto simp: report_image_def Report_create_def findById_append Let_def
      split: option.splits)

lemma report_user_breach:
  assumes "findById report_id i (reports s) = Some r"
  shows "findById report_id i
           (reports (snd (report_user now built saved newId reporter userIdp reasonp descp s))) = Some r"
  using assms
  by (auto simp: report_user_def Report_create_def findById_append Let_def
      split: option.splits)

lemma block_routes_reports:
  "reports (snd (block_user blocker userIdp why s)) = reports s"
  "reports (snd (unblock_user blocker userIdp s)) = reports s"
  by (auto simp: block_user_def unblock_user_def split: option.splits)

text \<open>
  C3: running markBreachedReports a second time at the same instant changes no report;
  no operation turns slaBreached of an existing report from true to false (nor removes
  the report); and an operation running at time now turns it from false to true only
  for a report whose slaDeadline is before now and whose status is pending or
  under review.
\<close>

theorem markBreached_idempotent_and_monotonic:
  "markBreachedReports now (markBreachedReports now rs) = markBreachedReports now rs \<and>
   (\<forall>r. findById report_id i (reports (sys_db sys)) = Some r \<longrightarrow>
      (\<exists>r'. findById report_id i (reports (sys_db (apply_operation now op sys))) = Some r' \<and>
            (slaBreached r \<longrightarrow> slaBreached r') \<and>
            (\<not> slaBreached r \<and> slaBreached r' \<longrightarrow>
               slaDeadline r < now \<and> (status r = PENDING \<or> status r = UNDER_REVIEW))))"
proof -
  have idem: "markBreachedReports now (markBreachedReports now rs) = markBreachedReports now rs"
    by (induction rs) (auto simp: markBreachedReports_def updateMany_def)
  have sweep: "\<exists>r'. findById report_id i (markBreachedReports now xs) = Some r' \<and>
      (slaBreached r \<longrightarrow> slaBreached r') \<and>
      (\<not> slaBreached r \<and> slaBreached r' \<longrightarrow>
         slaDeadline r < now \<and> (status r = PENDING \<or> status r = UNDER_REVIEW))"
    if "findById report_id i xs = Some r" for xs r
    using that by (auto simp: findById_markBreachedReports)
  have same: "\<exists>r'. findById report_id i xs' = Some r' \<and>
      (slaBreached r \<longrightarrow> slaBreached r') \<and>
      (\<not> slaBreached r \<and> slaBreached r' \<longrightarrow>
         slaDeadline r < now \<and> (status r = PENDING \<or> status r = UNDER_REVIEW))"
    if "\<exists>r'. findById report_id i xs' = Some r' \<and> slaBreached r' = slaBreached r" for xs' r
    using that by auto
  have step: "\<exists>r'. findById report_id i (reports (sys_db (apply_operation now op sys))) = Some r' \<and>
      (slaBreached r \<longrightarrow> slaBreached r') \<and>
      (\<not> slaBreached r \<and> slaBreached r' \<longrightarrow>
         slaDeadline r < now \<and> (status r = PENDING \<or> status r = UNDER_REVIEW))"
    if found: "findById report_id i (reports (sys_db sys)) = Some r" for r
  proof (cases op)
    case (ReportImage built saved newId reporter imageIdp reasonp descp)
    with report_image_breach [OF found] show ?thesis by (intro same) simp
  next
    case (ReportUser built saved newId reporter userIdp reasonp descp)
    with report_user_breach [OF found] show ?thesis by (intro same) simp
  next
    case (PatchStatus admin idp statusp)
    with patch_status_breach [OF found] show ?thesis by (intro same) simp
  next
    case (WarnUser admin idp msg)
    with warn_user_breach [OF found] show ?thesis by (intro same) simp
  next
    case (SuspendUser str localeDate admin idp days msg)
    with suspend_user_breach [OF found] show ?thesis by (intro same) simp
  next
    case (BanUser admin idp why)
    with ban_user_breach [OF found] show ?thesis by (intro same) simp
  next
    case (RemoveContent admin idp notify why)
    with remove_content_breach [OF found] show ?thesis by (intro same) simp
  next
    case (Dismiss admin idp why)
    with dismiss_breach [OF found] show ?thesis by (intro same) simp
  next
    case (BlockUser blocker userIdp why)
    with found show ?thesis by (intro same) (simp add: block_routes_reports)
  next
    case (UnblockUser blocker userIdp)
    with found show ?thesis by (intro same) (simp add: block_routes_reports)
  next
    case MarkBreached
    with sweep [OF found] show ?thesis by simp
  next
    case (MonitorCycle send)
    with sweep [OF found] show ?thesis by (simp add: Let_def reports_after_cycle)
  qed
  from idem step show ?thesis by blast
qed

theorem markBreached_idempotent_and_monotonic_witness:
  "map slaBreached (reports (sys_db monitored_system)) = [False, False, False] \<and>
   map slaBreached (markBreachedReports 5000000 three_reports) = [False, False, True] \<and>
   markBreachedReports 5000000 (markBreachedReports 5000000 three_reports) =
     markBreachedReports 5000000 three_reports \<and>
   (\<exists>r'. findById report_id 1
           (reports (sys_db (apply_operation 5000000 MarkBreached monitored_system))) = Some r' \<and>
         slaBreached r' \<and> slaDeadline r' < 5000000 \<and> status r' = PENDING) \<and>
   (\<exists>r'. findById report_id 1
           (reports (sys_db (apply_operation 6000000 (PatchStatus 99 (Some 1) (Some ''resolved''))
              (apply_operation 5000000 MarkBreached monitored_system)))) = Some r' \<and>
         slaBreached r' \<and> status r' = RESOLVED)"
proof -
  let ?s1 = "apply_operation 5000000 MarkBreached monitored_system"
  let ?s2 = "apply_operation 6000000 (PatchStatus 99 (Some 1) (Some ''resolved'')) ?s1"
  have a: "map slaBreached (reports (sys_db monitored_system)) = [False, False, False]"
    by (simp add: monitored_system_def three_reports_def report_due_def sample_report_def)
  have b: "map slaBreached (markBreachedReports 5000000 three_reports) = [False, False, True]"
    by (simp add: markBreachedReports_def updateMany_def three_reports_def report_due_def
        sample_report_def)
  have f0: "findById report_id 1 (reports (sys_db monitored_system)) =
      Some (report_due 1 2800000)"
    by (simp add: findById_def monitored_system_def three_reports_def report_due_def
        sample_report_def)
  have f1: "findById report_id 1 (reports (sys_db ?s1)) =
      Some ((report_due 1 2800000)\<lparr>slaBreached := True, updatedAt := 5000000\<rparr>)"
    by (simp add: findById_def monitored_system_def three_reports_def report_due_def
        sample_report_def markBreachedReports_def updateMany_def)
  have s2: "map_option status (findById report_id 1 (reports (sys_db ?s2))) = Some RESOLVED"
    by (simp add: patch_status_def findByIdAndUpdate_def findById_def monitored_system_def
        three_reports_def report_due_def sample_report_def markBreachedReports_def
        updateMany_def REPORT_STATUS_values_def status_of_string_def)
  from markBreached_idempotent_and_monotonic [of 5000000 three_reports 1 monitored_system
      MarkBreached]
  have idem: "markBreachedReports 5000000 (markBreachedReports 5000000 three_reports) =
      markBreachedReports 5000000 three_reports" by blast
  from f1 have c: "\<exists>r'. findById report_id 1 (reports (sys_db ?s1)) = Some r' \<and>
      slaBreached r' \<and> slaDeadline r' < 5000000 \<and> status r' = PENDING"
    by (simp add: report_due_def sample_report_def)
  from markBreached_idempotent_and_monotonic [of 6000000 "[]" 1 ?s1
      "PatchStatus 99 (Some 1) (Some ''resolved'')"] f1
  have "\<exists>r'. findById report_id 1 (reports (sys_db ?s2)) = Some r' \<and> slaBreached r'"
    by auto
  with s2 have d: "\<exists>r'. findById report_id 1 (reports (sys_db ?s2)) = Some r' \<and>
      slaBreached r' \<and> status r' = RESOLVED"
    by auto
  from a b idem c d show ?thesis by blast
qed

end
